theory Spec2Isabelle
  imports Main
begin

section \<open>Values of the source language\<close>

text \<open>
  The program is TypeScript. A string is modelled as a \<open>string\<close> (a list of 8-bit
  characters, read as code units below 256), an optional field \<open>f?: T\<close> as
  \<open>T option\<close> with \<open>None\<close> for \<open>undefined\<close>, an array as a list, and the
  integer-valued \<open>number\<close> of \<open>commandDelay\<close> as an \<open>int\<close>.

  Conditions such as \<open>if (config.script)\<close> test truthiness: \<open>undefined\<close> and the
  empty string are falsy, every other string is truthy.
\<close>

definition truthy :: "string option \<Rightarrow> bool" where
  "truthy v = (case v of None \<Rightarrow> False | Some s \<Rightarrow> s \<noteq> [])"

text \<open>\<open>s.split(c)\<close> for a one-character separator: never the empty list.\<close>

fun split_on :: "char \<Rightarrow> string \<Rightarrow> string list" where
  "split_on c [] = [[]]"
| "split_on c (x # xs) =
     (if x = c then [] # split_on c xs
      else (case split_on c xs of
              [] \<Rightarrow> [[x]]
            | y # ys \<Rightarrow> (x # y) # ys))"

text \<open>\<open>parts.join(sep)\<close>.\<close>

fun join_with :: "string \<Rightarrow> string list \<Rightarrow> string" where
  "join_with sep [] = []"
| "join_with sep [x] = x"
| "join_with sep (x # y # ys) = x @ sep @ join_with sep (y # ys)"

section \<open>The path module\<close>

text \<open>
  \<open>path.isAbsolute\<close>, \<open>path.join\<close> and \<open>path.basename\<close> belong to the platform, not
  to the repository, and differ between POSIX and Windows. The program is therefore
  modelled over any implementation of the three, passed as a parameter.
\<close>

record PathApi =
  path_isAbsolute :: "string \<Rightarrow> bool"
  path_join :: "string \<Rightarrow> string \<Rightarrow> string"
  path_basename :: "string \<Rightarrow> string"

text \<open>
  The POSIX implementation, following its documented behaviour: a path is absolute
  when it starts with a slash; \<open>join\<close> puts a slash between its non-empty arguments
  and normalises the result (empty and \<open>.\<close> segments vanish, \<open>..\<close> removes the segment
  before it, a trailing slash is kept); \<open>basename\<close> is the last non-empty segment.
  It serves to evaluate the program on concrete inputs.
\<close>

definition posix_isAbsolute :: "string \<Rightarrow> bool" where
  "posix_isAbsolute p = (case p of [] \<Rightarrow> False | c # _ \<Rightarrow> c = CHR ''/'')"

fun normalizeString :: "bool \<Rightarrow> string list \<Rightarrow> string list \<Rightarrow> string list" where
  "normalizeString allowAboveRoot res [] = rev res"
| "normalizeString allowAboveRoot res (seg # segs) =
     (if seg = [] \<or> seg = ''.'' then normalizeString allowAboveRoot res segs
      else if seg = ''..'' then
        (case res of
           [] \<Rightarrow> normalizeString allowAboveRoot (if allowAboveRoot then [''..''] else []) segs
         | lastSeg # below \<Rightarrow>
             if lastSeg = ''..'' then
               normalizeString allowAboveRoot (if allowAboveRoot then ''..'' # res else res) segs
             else normalizeString allowAboveRoot below segs)
      else normalizeString allowAboveRoot (seg # res) segs)"

definition posix_normalize :: "string \<Rightarrow> string" where
  "posix_normalize p =
     (if p = [] then ''.''
      else
        let isAbs = (hd p = CHR ''/'');
            trailingSeparator = (last p = CHR ''/'');
            res = join_with ''/'' (normalizeString (\<not> isAbs) [] (split_on (CHR ''/'') p))
        in if res = [] then (if isAbs then ''/'' else if trailingSeparator then ''./'' else ''.'')
           else (if isAbs then ''/'' else []) @ res @ (if trailingSeparator then ''/'' else []))"

definition posix_join :: "string \<Rightarrow> string \<Rightarrow> string" where
  "posix_join a b =
     (case filter (\<lambda>arg. arg \<noteq> []) [a, b] of
        [] \<Rightarrow> ''.''
      | args \<Rightarrow> posix_normalize (join_with ''/'' args))"

definition posix_basename :: "string \<Rightarrow> string" where
  "posix_basename p =
     (case filter (\<lambda>seg. seg \<noteq> []) (split_on (CHR ''/'') p) of
        [] \<Rightarrow> []
      | segs \<Rightarrow> last segs)"

definition posix :: PathApi where
  "posix = \<lparr> path_isAbsolute = posix_isAbsolute, path_join = posix_join,
             path_basename = posix_basename \<rparr>"

section \<open>The configuration model (types.ts)\<close>

text \<open>
  \<open>color\<close> is declared as one of nine literals, but neither parser checks it: the
  custom format copies any text into it and \<open>JSON.parse\<close> validates nothing. It is a
  string here. \<open>name\<close> is required by the declaration and modelled as always present.
\<close>

record TerminalConfig =
  name :: string
  cwd :: "string option"
  command :: "string option"
  commands :: "string list option"
  script :: "string option"
  commandDelay :: "int option"
  color :: "string option"
  icon :: "string option"
  env :: "(string \<times> string) list option"
  shellPath :: "string option"
  shellArgs :: "string list option"

text \<open>
  The group's own \<open>terminals\<close> is declared required, yet the source guards against
  its absence (\<open>!group.terminals\<close>), so it is optional in the model.
\<close>

record TerminalGroupConfig =
  group_name :: "string option"
  group_terminals :: "TerminalConfig list option"

record TerminalLauncherConfig =
  version :: "string option"
  groups :: "TerminalGroupConfig list option"
  terminals :: "TerminalConfig list option"

section \<open>Command dispatch (TerminalManager.executeTerminalCommands)\<close>

text \<open>
  What \<open>executeTerminalCommands\<close> does to its terminal, in program order: either an
  immediate \<open>terminal.sendText(t)\<close>, or \<open>setTimeout(() => terminal.sendText(t), ms)\<close>,
  recorded with the argument \<open>ms\<close> handed to the timer.

  The argument is the product \<open>index * delay\<close> of two integer-valued doubles. Up to
  a magnitude of \<open>2^53\<close> that product is the exact integer, and \<open>SendTextAfter\<close> holds
  it. Beyond, the double is a rounded value (or an infinity) of magnitude at least
  \<open>2^53\<close>, which is not computed here: the call is then recorded as \<open>SendTextAfterRounded\<close>.
\<close>

datatype terminal_call =
  SendText string
| SendTextAfter int string
| SendTextAfterRounded string

fun call_text :: "terminal_call \<Rightarrow> string" where
  "call_text (SendText t) = t"
| "call_text (SendTextAfter ms t) = t"
| "call_text (SendTextAfterRounded t) = t"

text \<open>\<open>setTimeout(() => terminal.sendText(cmd), index * delay)\<close>.\<close>

definition setTimeout_sendText :: "int \<Rightarrow> int \<Rightarrow> string \<Rightarrow> terminal_call" where
  "setTimeout_sendText index delay cmd =
     (if \<bar>index * delay\<bar> \<le> 2 ^ 53 then SendTextAfter (index * delay) cmd
      else SendTextAfterRounded cmd)"

text \<open>\<open>config.commandDelay || 100\<close>: \<open>undefined\<close> and \<open>0\<close> are both falsy.\<close>

definition delay_or_default :: "int option \<Rightarrow> int" where
  "delay_or_default d = (case d of None \<Rightarrow> 100 | Some n \<Rightarrow> if n = 0 then 100 else n)"

definition executeTerminalCommands :: "PathApi \<Rightarrow> TerminalConfig \<Rightarrow> string \<Rightarrow> terminal_call list" where
  "executeTerminalCommands P config basePath =
     (if truthy (script config) then
        (let s = the (script config);
             scriptPath = (if path_isAbsolute P s then s else path_join P basePath s)
         in [SendText scriptPath])
      else if (case commands config of None \<Rightarrow> False | Some cs \<Rightarrow> length cs > 0) then
        (let delay = delay_or_default (commandDelay config)
         in map (\<lambda>(index, cmd). setTimeout_sendText (int index) delay cmd)
              (enumerate 0 (the (commands config))))
      else if truthy (command config) then [SendText (the (command config))]
      else [])"

text \<open>
  When the text of a call reaches the terminal, in milliseconds after the function
  ran, that is after session readiness. An immediate \<open>sendText\<close> is sent at once. A
  timer follows \<open>setTimeout\<close> as Node.js, the runtime of the extension host,
  documents it: a delay below 1 or above \<open>2^31 - 1\<close> (and so every rounded product) is
  set to 1, every other delay is kept. Timers set in one turn fire by increasing delay,
  and timers of equal delay in the order they were set, which is what the stable
  \<open>sort_key\<close> computes.
\<close>

fun sent_after :: "terminal_call \<Rightarrow> int" where
  "sent_after (SendText t) = 0"
| "sent_after (SendTextAfter ms t) = (if 1 \<le> ms \<and> ms \<le> 2147483647 then ms else 1)"
| "sent_after (SendTextAfterRounded t) = 1"

definition firing_order :: "terminal_call list \<Rightarrow> terminal_call list" where
  "firing_order calls = sort_key sent_after calls"

text \<open>
  The priority rule in the specification's words: the effective source is the script if
  there is one, else the commands, else the command. A source counts when it is
  non-empty (a non-empty string, a non-empty list).
\<close>

datatype command_source =
  FromScript string
| FromCommands "string list"
| FromCommand string

definition effective_source :: "TerminalConfig \<Rightarrow> command_source option" where
  "effective_source config =
     (case script config of
        Some (c # s) \<Rightarrow> Some (FromScript (c # s))
      | _ \<Rightarrow>
        (case commands config of
           Some (c # cs) \<Rightarrow> Some (FromCommands (c # cs))
         | _ \<Rightarrow>
           (case command config of
              Some (c # s) \<Rightarrow> Some (FromCommand (c # s))
            | _ \<Rightarrow> None)))"

text \<open>The texts a source stands for, given how a script path is resolved.\<close>

fun source_texts :: "PathApi \<Rightarrow> string \<Rightarrow> command_source \<Rightarrow> string list" where
  "source_texts P basePath (FromScript s) =
     [if path_isAbsolute P s then s else path_join P basePath s]"
| "source_texts P basePath (FromCommands cs) = cs"
| "source_texts P basePath (FromCommand c) = [c]"

text \<open>A configuration with every optional field absent.\<close>

definition bare :: "string \<Rightarrow> TerminalConfig" where
  "bare n = \<lparr> name = n, cwd = None, command = None, commands = None, script = None,
              commandDelay = None, color = None, icon = None, env = None,
              shellPath = None, shellArgs = None \<rparr>"

section \<open>The custom text format (ConfigParser.parseCustomFormat)\<close>

text \<open>
  \<open>String.prototype.trim\<close> strips white space and line terminators from both ends.
  Among the code units below 256 these are tab, line feed, vertical tab, form feed,
  carriage return, space and no-break space.
\<close>

definition is_space :: "char \<Rightarrow> bool" where
  "is_space c = (c \<in> set [CHR 0x09, CHR 0x0A, CHR 0x0B, CHR 0x0C, CHR 0x0D, CHR 0x20, CHR 0xA0])"

definition trim :: "string \<Rightarrow> string" where
  "trim s = rev (dropWhile is_space (rev (dropWhile is_space s)))"

definition startsWith :: "string \<Rightarrow> string \<Rightarrow> bool" where
  "startsWith s p = (take (length p) s = p)"

definition endsWith :: "string \<Rightarrow> string \<Rightarrow> bool" where
  "endsWith s p = (length p \<le> length s \<and> drop (length s - length p) s = p)"

text \<open>\<open>s.slice(1, -1)\<close>: the string without its first and last character.\<close>

definition slice_1_minus1 :: "string \<Rightarrow> string" where
  "slice_1_minus1 s = butlast (tl s)"

text \<open>The \<open>switch (key.trim())\<close> of the loop body; a key it does not list changes nothing.\<close>

definition assign_key :: "string \<Rightarrow> string \<Rightarrow> TerminalConfig \<Rightarrow> TerminalConfig" where
  "assign_key key v t =
     (if key = ''cwd'' then t\<lparr> cwd := Some v \<rparr>
      else if key = ''command'' then t\<lparr> command := Some v \<rparr>
      else if key = ''commands'' then t\<lparr> commands := Some (map trim (split_on (CHR '';'') v)) \<rparr>
      else if key = ''script'' then t\<lparr> script := Some v \<rparr>
      else if key = ''color'' then t\<lparr> color := Some v \<rparr>
      else if key = ''icon'' then t\<lparr> icon := Some v \<rparr>
      else t)"

text \<open>
  The loop's variables: \<open>config.terminals\<close>, the output so far, and \<open>currentTerminal\<close>,
  the open record (\<open>null\<close> before the first header).
\<close>

record parse_state =
  config_terminals :: "TerminalConfig list"
  currentTerminal :: "TerminalConfig option"

definition parse_line :: "string \<Rightarrow> parse_state \<Rightarrow> parse_state" where
  "parse_line line st =
     (let trimmed = trim line in
      if startsWith trimmed ''['' \<and> endsWith trimmed '']'' then
        \<lparr> config_terminals =
            (case currentTerminal st of
               None \<Rightarrow> config_terminals st
             | Some t \<Rightarrow> config_terminals st @ [t]),
          currentTerminal = Some (bare (slice_1_minus1 trimmed)) \<rparr>
      else
        (case currentTerminal st of
           None \<Rightarrow> st
         | Some t \<Rightarrow>
             if CHR ''='' \<in> set trimmed then
               (case split_on (CHR ''='') trimmed of
                  [] \<Rightarrow> st
                | key # valueParts \<Rightarrow>
                    let v = trim (join_with ''='' valueParts)
                    in st\<lparr> currentTerminal := Some (assign_key (trim key) v t) \<rparr>)
             else st))"

fun parse_lines :: "string list \<Rightarrow> parse_state \<Rightarrow> parse_state" where
  "parse_lines [] st = st"
| "parse_lines (line # rest) st = parse_lines rest (parse_line line st)"

text \<open>The lines the loop sees: neither blank nor a comment.\<close>

definition config_lines :: "string \<Rightarrow> string list" where
  "config_lines content =
     filter (\<lambda>line. trim line \<noteq> [] \<and> \<not> startsWith (trim line) ''#'')
       (split_on (CHR 0x0A) content)"

definition parseCustomFormat :: "string \<Rightarrow> TerminalLauncherConfig" where
  "parseCustomFormat content =
     (let st = parse_lines (config_lines content)
                 \<lparr> config_terminals = [], currentTerminal = None \<rparr>
      in \<lparr> version = None, groups = None,
           terminals = Some (case currentTerminal st of
                               None \<Rightarrow> config_terminals st
                             | Some t \<Rightarrow> config_terminals st @ [t]) \<rparr>)"

subsection \<open>The format in the specification's words\<close>

text \<open>
  A header is a line whose trimmed form starts with \<open>[\<close> and ends with \<open>]\<close>; it opens a
  record named by what stands between the brackets. The record's body is every line
  up to the next header or the end of the input.
\<close>

definition is_header :: "string \<Rightarrow> bool" where
  "is_header line = (startsWith (trim line) ''['' \<and> endsWith (trim line) '']'')"

fun opened_records :: "string list \<Rightarrow> (string \<times> string list) list" where
  "opened_records [] = []"
| "opened_records (line # rest) =
     (if is_header line
      then (slice_1_minus1 (trim line), takeWhile (\<lambda>l. \<not> is_header l) rest) # opened_records rest
      else opened_records rest)"

text \<open>
  The key of a \<open>key = value\<close> line: what stands left of the first \<open>=\<close>, trimmed. A line
  without \<open>=\<close> has no key.
\<close>

definition line_key :: "string \<Rightarrow> string option" where
  "line_key line =
     (if CHR ''='' \<in> set (trim line)
      then Some (trim (takeWhile (\<lambda>c. c \<noteq> CHR ''='') (trim line)))
      else None)"

definition keys_present :: "string list \<Rightarrow> string set" where
  "keys_present body = set (List.map_filter line_key body)"

definition recognised_keys :: "string set" where
  "recognised_keys = {''cwd'', ''command'', ''commands'', ''script'', ''color'', ''icon''}"

text \<open>The optional fields a record carries, by the names of the configuration keys.\<close>

definition has_field :: "string \<Rightarrow> TerminalConfig \<Rightarrow> bool" where
  "has_field k t =
     (if k = ''cwd'' then cwd t \<noteq> None
      else if k = ''command'' then command t \<noteq> None
      else if k = ''commands'' then commands t \<noteq> None
      else if k = ''script'' then script t \<noteq> None
      else if k = ''commandDelay'' then commandDelay t \<noteq> None
      else if k = ''color'' then color t \<noteq> None
      else if k = ''icon'' then icon t \<noteq> None
      else if k = ''env'' then env t \<noteq> None
      else if k = ''shellPath'' then shellPath t \<noteq> None
      else if k = ''shellArgs'' then shellArgs t \<noteq> None
      else False)"

definition fields_set :: "TerminalConfig \<Rightarrow> string set" where
  "fields_set t =
     set (filter (\<lambda>k. has_field k t)
            [''cwd'', ''command'', ''commands'', ''script'', ''commandDelay'', ''color'',
             ''icon'', ''env'', ''shellPath'', ''shellArgs''])"

subsection \<open>Auxiliary notions for the parser's loop\<close>

text \<open>
  What a body line does to the open record, and what the loop has flushed once the
  open record is counted in.
\<close>

definition line_effect :: "string \<Rightarrow> TerminalConfig \<Rightarrow> TerminalConfig" where
  "line_effect line t =
     (case line_key line of
        None \<Rightarrow> t
      | Some key \<Rightarrow>
          assign_key key (trim (join_with ''='' (tl (split_on (CHR ''='') (trim line))))) t)"

definition flushed :: "parse_state \<Rightarrow> TerminalConfig list" where
  "flushed st = (case currentTerminal st of
                   None \<Rightarrow> config_terminals st
                 | Some t \<Rightarrow> config_terminals st @ [t])"

text \<open>A small input in the custom format, used to run the parser.\<close>

definition sample_content :: string where
  "sample_content =
     ''# demo'' @ [CHR 0x0A] @ ''[api]'' @ [CHR 0x0A] @ ''cwd = ./api'' @ [CHR 0x0A]
     @ ''commands = a ; b;c '' @ [CHR 0x0A] @ ''[web]'' @ [CHR 0x0A] @ ''command = x''"

section \<open>The host and the manager's state\<close>

text \<open>
  The host is the editor's extension API. What the manager passes to
  \<open>vscode.window.createTerminal\<close> is a \<open>TerminalOptions\<close>; a terminal is the handle
  the host returns, identified by a number and carrying the options it was created
  with, so that \<open>terminal.name\<close> is the name it was created under. An icon is a
  theme icon identifier.
\<close>

text \<open>
  A theme colour as \<open>getTerminalColor\<close> builds it: from a colour identifier, or from a
  member inherited by the colour table (see \<open>getTerminalColor\<close> below).
\<close>

datatype theme_color =
  ThemeColor string
| ThemeColorOfInherited string

record TerminalOptions =
  opt_name :: string
  opt_cwd :: "string option"
  opt_env :: "(string \<times> string) list option"
  opt_shellPath :: "string option"
  opt_shellArgs :: "string list option"
  opt_color :: "theme_color option"
  opt_iconPath :: "string option"

record Terminal =
  terminal_id :: nat
  creationOptions :: TerminalOptions

definition terminal_name :: "Terminal \<Rightarrow> string" where
  "terminal_name t = opt_name (creationOptions t)"

text \<open>The two messages \<open>createTerminal\<close> hands to \<open>showErrorMessage\<close>.\<close>

datatype error_message =
  CannotResolveRelativePath string
| FailedToCreateTerminal string

text \<open>
  A callback registered by \<open>createTerminal\<close> with \<open>setTimeout\<close>: after \<open>timeout_ms\<close>
  it runs \<open>executeTerminalCommands\<close> on the terminal, the configuration and the base
  path captured at creation.
\<close>

record timeout =
  timeout_ms :: nat
  timeout_terminal :: nat
  timeout_config :: TerminalConfig
  timeout_basePath :: string

text \<open>
  The state the manager acts on. \<open>this_terminals\<close> is the manager's own
  \<open>this.terminals\<close>; the other fields are the host's: the live terminals
  (\<open>vscode.window.terminals\<close>), the workspace folders by their paths, the options for
  which \<open>vscode.window.createTerminal\<close> throws, the next free terminal number, and
  logs of the error messages shown, of the calls \<open>terminal.show(preserveFocus)\<close> with
  their argument, and of the registered callbacks. \<open>awaited\<close> sums the delays the
  manager has waited for with \<open>await\<close>, in milliseconds.

  A terminal created by the host joins the live terminals at once, and a disposed one
  leaves them at once; one caller runs at a time.
\<close>

record world =
  this_terminals :: "Terminal list"
  window_terminals :: "Terminal list"
  workspaceFolders :: "string list option"
  host_refuses :: "TerminalOptions \<Rightarrow> bool"
  next_terminal_id :: nat
  error_messages :: "error_message list"
  show_calls :: "(nat \<times> bool) list"
  timeouts :: "timeout list"
  awaited :: nat

section \<open>Names (findExistingTerminal, generateUniqueTerminalName)\<close>

definition findExistingTerminal :: "world \<Rightarrow> string \<Rightarrow> Terminal option" where
  "findExistingTerminal s n = find (\<lambda>terminal. terminal_name terminal = n) (window_terminals s)"

text \<open>
  A counter in a template literal prints in decimal. The counter is a natural number
  here; the source's \<open>number\<close> stops counting exactly at \<open>2^53\<close>, far beyond any number
  of live terminals.
\<close>

fun decimal :: "nat \<Rightarrow> string" where
  "decimal n =
     (if n < 10 then [char_of (48 + n)]
      else decimal (n div 10) @ [char_of (48 + n mod 10)])"

declare decimal.simps [simp del]

text \<open>The template \<open>`${baseName} (${counter})`\<close>.\<close>

definition numbered :: "string \<Rightarrow> nat \<Rightarrow> string" where
  "numbered baseName counter = baseName @ '' ('' @ decimal counter @ '')''"

lemma decimal_not_Nil: "decimal n \<noteq> []"
  by (subst decimal.simps) simp

lemma digit_inj:
  assumes "a < 10" and "b < 10" and "(char_of (48 + a) :: char) = char_of (48 + b)"
  shows "a = (b::nat)"
proof -
  from assms(3)
  have "(of_char (char_of (48 + a) :: char) :: nat) = of_char (char_of (48 + b) :: char)"
    by simp
  then have "(48 + a) mod 256 = (48 + b) mod 256" by (simp only: of_char_of)
  with assms(1,2) show ?thesis by simp
qed

lemma decimal_inj: "decimal n = decimal m \<Longrightarrow> n = m"
proof (induction n arbitrary: m rule: decimal.induct)
  case (1 n)
  show ?case
  proof (cases "n < 10")
    case True
    show ?thesis
    proof (cases "m < 10")
      case mt: True
      from "1.prems" True mt have "(char_of (48 + n) :: char) = char_of (48 + m)"
        by (simp add: decimal.simps[of n] decimal.simps[of m])
      then show ?thesis by (rule digit_inj[OF True mt])
    next
      case mf: False
      from "1.prems" True mf
      have "[char_of (48 + n)] = decimal (m div 10) @ [char_of (48 + m mod 10)]"
        by (simp add: decimal.simps[of n] decimal.simps[of m])
      then have "decimal (m div 10) = []" by simp
      with decimal_not_Nil show ?thesis by blast
    qed
  next
    case False
    show ?thesis
    proof (cases "m < 10")
      case mt: True
      from "1.prems" False mt
      have "decimal (n div 10) @ [char_of (48 + n mod 10)] = [char_of (48 + m)]"
        by (simp add: decimal.simps[of n] decimal.simps[of m])
      then have "decimal (n div 10) = []" by simp
      with decimal_not_Nil show ?thesis by blast
    next
      case mf: False
      from "1.prems" False mf
      have "decimal (n div 10) @ [char_of (48 + n mod 10)]
              = decimal (m div 10) @ [char_of (48 + m mod 10)]"
        by (simp add: decimal.simps[of n] decimal.simps[of m])
      then have d: "decimal (n div 10) = decimal (m div 10)"
        and c: "(char_of (48 + n mod 10) :: char) = char_of (48 + m mod 10)" by simp_all
      from "1.IH"[OF False d] have q: "n div 10 = m div 10" .
      have r: "n mod 10 = m mod 10" by (rule digit_inj[OF _ _ c]) simp_all
      from q r show ?thesis by (metis div_mult_mod_eq)
    qed
  qed
qed

lemma numbered_inj: "numbered baseName j = numbered baseName k \<Longrightarrow> j = k"
  by (simp add: numbered_def decimal_inj)

text \<open>
  The names \<open>baseName (k)\<close> with \<open>k\<close> from \<open>counter\<close> on that are taken by a live
  terminal; there are finitely many, and the loop below leaves one behind each round.
\<close>

definition taken_from :: "world \<Rightarrow> string \<Rightarrow> nat \<Rightarrow> nat set" where
  "taken_from s baseName counter =
     {k. counter \<le> k \<and> numbered baseName k \<in> terminal_name ` set (window_terminals s)}"

lemma finite_taken_from: "finite (taken_from s baseName counter)"
proof -
  have "inj (numbered baseName)" by (rule injI) (rule numbered_inj)
  then have "finite (numbered baseName -` (terminal_name ` set (window_terminals s)))"
    by (intro finite_vimageI) simp_all
  moreover have "taken_from s baseName counter
      \<subseteq> numbered baseName -` (terminal_name ` set (window_terminals s))"
    by (auto simp: taken_from_def)
  ultimately show ?thesis by (rule rev_finite_subset)
qed

lemma findExistingTerminal_Some_iff:
  "findExistingTerminal s n \<noteq> None \<longleftrightarrow> n \<in> terminal_name ` set (window_terminals s)"
  by (auto simp: findExistingTerminal_def find_None_iff)

lemma taken_from_Suc:
  assumes "findExistingTerminal s (numbered baseName counter) \<noteq> None"
  shows "taken_from s baseName (Suc counter) \<subset> taken_from s baseName counter"
proof -
  from assms have "numbered baseName counter \<in> terminal_name ` set (window_terminals s)"
    unfolding findExistingTerminal_Some_iff .
  then have "counter \<in> taken_from s baseName counter"
    by (simp add: taken_from_def)
  moreover have "counter \<notin> taken_from s baseName (Suc counter)"
    by (simp add: taken_from_def)
  moreover have "taken_from s baseName (Suc counter) \<subseteq> taken_from s baseName counter"
    by (auto simp: taken_from_def)
  ultimately show ?thesis by blast
qed

text \<open>The \<open>while\<close> loop of \<open>generateUniqueTerminalName\<close>, from a given counter.\<close>

function generate_loop :: "world \<Rightarrow> string \<Rightarrow> nat \<Rightarrow> string" where
  "generate_loop s baseName counter =
     (if findExistingTerminal s (numbered baseName counter) \<noteq> None
      then generate_loop s baseName (Suc counter)
      else numbered baseName counter)"
  by pat_completeness auto
termination
proof (relation "measure (\<lambda>(s, baseName, counter). card (taken_from s baseName counter))")
  show "wf (measure (\<lambda>(s, baseName, counter). card (taken_from s baseName counter)))"
    by simp
next
  fix s baseName counter
  assume "findExistingTerminal s (numbered baseName counter) \<noteq> None"
  then have "card (taken_from s baseName (Suc counter)) < card (taken_from s baseName counter)"
    by (intro psubset_card_mono finite_taken_from taken_from_Suc)
  then show "((s, baseName, Suc counter), (s, baseName, counter))
      \<in> measure (\<lambda>(s, baseName, counter). card (taken_from s baseName counter))"
    by simp
qed

declare generate_loop.simps [simp del]

definition generateUniqueTerminalName :: "world \<Rightarrow> string \<Rightarrow> string" where
  "generateUniqueTerminalName s baseName = generate_loop s baseName 2"

section \<open>Creating one terminal (TerminalManager.createTerminal)\<close>

text \<open>
  \<open>getTerminalColor\<close>: \<open>new vscode.ThemeColor(colorMap[color] || 'terminal.foreground')\<close>.
  \<open>colorMap\<close> is an object literal, so besides its nine own keys a lookup finds the
  members it inherits from \<open>Object.prototype\<close>. Such a member is a function or an
  object, hence truthy, and the theme colour is then built from it and not from a
  string: \<open>ThemeColorOfInherited\<close> records which member.
\<close>

definition object_prototype_keys :: "string list" where
  "object_prototype_keys =
     [''constructor'', ''__defineGetter__'', ''__defineSetter__'', ''hasOwnProperty'',
      ''__lookupGetter__'', ''__lookupSetter__'', ''isPrototypeOf'', ''propertyIsEnumerable'',
      ''toString'', ''valueOf'', ''__proto__'', ''toLocaleString'']"

definition colorMap :: "(string \<times> string) list" where
  "colorMap =
     [(''red'', ''terminal.ansiRed''),
      (''orange'', ''terminal.ansiYellow''),
      (''yellow'', ''terminal.ansiYellow''),
      (''green'', ''terminal.ansiGreen''),
      (''blue'', ''terminal.ansiBlue''),
      (''purple'', ''terminal.ansiMagenta''),
      (''pink'', ''terminal.ansiMagenta''),
      (''black'', ''terminal.ansiBlack''),
      (''white'', ''terminal.ansiWhite'')]"

definition getTerminalColor :: "string \<Rightarrow> theme_color" where
  "getTerminalColor c =
     (case map_of colorMap c of
        Some themeColor \<Rightarrow> ThemeColor themeColor
      | None \<Rightarrow>
          if c \<in> set object_prototype_keys then ThemeColorOfInherited c
          else ThemeColor ''terminal.foreground'')"

text \<open>\<open>vscode.workspace.workspaceFolders?.[0]\<close>, as its path.\<close>

definition first_workspaceFolder :: "world \<Rightarrow> string option" where
  "first_workspaceFolder s =
     (case workspaceFolders s of
        None \<Rightarrow> None
      | Some [] \<Rightarrow> None
      | Some (folder # _) \<Rightarrow> Some folder)"

text \<open>\<open>const basePath = projectBasePath || workspaceFolder?.uri.fsPath\<close>.\<close>

definition effective_basePath :: "string option \<Rightarrow> world \<Rightarrow> string option" where
  "effective_basePath projectBasePath s =
     (if truthy projectBasePath then projectBasePath else first_workspaceFolder s)"

text \<open>
  The guard and the conditional that compute \<open>cwd\<close>: \<open>Inl\<close> is the early return after
  the error message, \<open>Inr\<close> the working directory (possibly \<open>undefined\<close>).
\<close>

definition resolve_cwd :: "PathApi \<Rightarrow> TerminalConfig \<Rightarrow> string option \<Rightarrow> error_message + string option" where
  "resolve_cwd P config basePath =
     (if \<not> truthy basePath \<and> truthy (cwd config) \<and> \<not> path_isAbsolute P (the (cwd config))
      then Inl (CannotResolveRelativePath (the (cwd config)))
      else Inr (if truthy (cwd config)
                then (if path_isAbsolute P (the (cwd config))
                      then cwd config
                      else Some (path_join P (the basePath) (the (cwd config))))
                else basePath))"

text \<open>The project prefix put before a name, here and in the duplicate check.\<close>

definition prefixed_name :: "PathApi \<Rightarrow> string option \<Rightarrow> string \<Rightarrow> string" where
  "prefixed_name P projectBasePath n =
     (if truthy projectBasePath
      then ''['' @ path_basename P (the projectBasePath) @ ''] '' @ n
      else n)"

text \<open>\<open>existingTerminal.dispose()\<close>: the terminal leaves the live ones.\<close>

definition dispose :: "Terminal \<Rightarrow> world \<Rightarrow> world" where
  "dispose terminal s = s\<lparr> window_terminals := remove1 terminal (window_terminals s) \<rparr>"

text \<open>
  The rest of \<open>createTerminal\<close> once the name is settled: the options, the host's
  \<open>createTerminal\<close> (which joins the new terminal to the live ones, or throws into the
  \<open>catch\<close>), and the callback set for 500 milliseconds later with \<open>cwd || basePath || ''\<close>.
\<close>

definition open_terminal ::
  "TerminalConfig \<Rightarrow> string \<Rightarrow> string option \<Rightarrow> string option \<Rightarrow> world \<Rightarrow> Terminal option \<times> world" where
  "open_terminal config terminalName cwd' basePath s =
     (let terminalOptions =
            \<lparr> opt_name = terminalName, opt_cwd = cwd', opt_env = env config,
              opt_shellPath = shellPath config, opt_shellArgs = shellArgs config,
              opt_color = (if truthy (color config)
                           then Some (getTerminalColor (the (color config))) else None),
              opt_iconPath = (if truthy (icon config) then icon config else None) \<rparr>
      in if host_refuses s terminalOptions then
           (None, s\<lparr> error_messages := error_messages s @ [FailedToCreateTerminal (name config)] \<rparr>)
         else
           let terminal = \<lparr> terminal_id = next_terminal_id s, creationOptions = terminalOptions \<rparr>
           in (Some terminal,
               s\<lparr> window_terminals := window_terminals s @ [terminal],
                  next_terminal_id := Suc (next_terminal_id s),
                  timeouts := timeouts s @
                    [\<lparr> timeout_ms = 500, timeout_terminal = terminal_id terminal,
                       timeout_config = config,
                       timeout_basePath =
                         (if truthy cwd' then the cwd'
                          else if truthy basePath then the basePath else []) \<rparr>] \<rparr>))"

text \<open>The five values \<open>duplicateAction\<close> takes.\<close>

datatype duplicate_action = Proceed | Replace | Skip | Rename | Cancel

definition createTerminal ::
  "PathApi \<Rightarrow> TerminalConfig \<Rightarrow> string option \<Rightarrow> duplicate_action \<Rightarrow> world \<Rightarrow> Terminal option \<times> world" where
  "createTerminal P config projectBasePath duplicateAction s =
     (let basePath = effective_basePath projectBasePath s in
      case resolve_cwd P config basePath of
        Inl message \<Rightarrow> (None, s\<lparr> error_messages := error_messages s @ [message] \<rparr>)
      | Inr cwd' \<Rightarrow>
          let terminalName = prefixed_name P projectBasePath (name config) in
          case findExistingTerminal s terminalName of
            None \<Rightarrow> open_terminal config terminalName cwd' basePath s
          | Some existingTerminal \<Rightarrow>
              if duplicateAction = Replace then
                open_terminal config terminalName cwd' basePath (dispose existingTerminal s)
              else if duplicateAction = Skip then (None, s)
              else if duplicateAction = Rename then
                open_terminal config (generateUniqueTerminalName s terminalName) cwd' basePath s
              else open_terminal config terminalName cwd' basePath s)"

text \<open>What a registered callback does to its terminal when it fires.\<close>

definition fire_timeout :: "PathApi \<Rightarrow> timeout \<Rightarrow> terminal_call list" where
  "fire_timeout P t = executeTerminalCommands P (timeout_config t) (timeout_basePath t)"

section \<open>Launching a batch (launchTerminals, launchTerminalGroup, checkForDuplicateTerminals)\<close>

text \<open>The items of the quick pick and the value each carries.\<close>

datatype quick_pick_item = ReplaceExisting | SkipExisting | RenameNew | CancelLaunch

fun item_value :: "quick_pick_item \<Rightarrow> duplicate_action" where
  "item_value ReplaceExisting = Replace"
| "item_value SkipExisting = Skip"
| "item_value RenameNew = Rename"
| "item_value CancelLaunch = Cancel"

text \<open>The names the batch would create, as \<open>checkForDuplicateTerminals\<close> collects them.\<close>

definition terminalNames :: "PathApi \<Rightarrow> TerminalLauncherConfig \<Rightarrow> string option \<Rightarrow> string list" where
  "terminalNames P config projectBasePath =
     (if (case groups config of None \<Rightarrow> False | Some gs \<Rightarrow> length gs > 0) then
        concat (map (\<lambda>terminalGroup. case group_terminals terminalGroup of
                               None \<Rightarrow> []
                             | Some ts \<Rightarrow> map (\<lambda>terminal. prefixed_name P projectBasePath (name terminal)) ts)
                  (the (groups config)))
      else if (case terminals config of None \<Rightarrow> False | Some ts \<Rightarrow> length ts > 0) then
        map (\<lambda>terminal. prefixed_name P projectBasePath (name terminal)) (the (terminals config))
      else [])"

definition duplicates :: "PathApi \<Rightarrow> TerminalLauncherConfig \<Rightarrow> string option \<Rightarrow> world \<Rightarrow> string list" where
  "duplicates P config projectBasePath s =
     filter (\<lambda>n. findExistingTerminal s n \<noteq> None) (terminalNames P config projectBasePath)"

text \<open>
  \<open>answer\<close> is what the user does with the quick pick if it is shown: an item, or
  \<open>None\<close> for dismissing it. \<open>action?.value || 'cancel'\<close> turns a dismissal into
  \<open>cancel\<close>.
\<close>

definition checkForDuplicateTerminals ::
  "PathApi \<Rightarrow> TerminalLauncherConfig \<Rightarrow> string option \<Rightarrow> quick_pick_item option \<Rightarrow> world \<Rightarrow> duplicate_action" where
  "checkForDuplicateTerminals P config projectBasePath answer s =
     (if length (duplicates P config projectBasePath s) > 0
      then (case answer of None \<Rightarrow> Cancel | Some action \<Rightarrow> item_value action)
      else Proceed)"

text \<open>
  \<open>this.terminals.push(terminal)\<close> and \<open>terminal.show(preserveFocus)\<close>. The host's
  \<open>show\<close> reveals the terminal in the panel and, unless \<open>preserveFocus\<close> is true, gives
  it the focus; the call is logged with its argument.
\<close>

definition push_terminal :: "Terminal \<Rightarrow> world \<Rightarrow> world" where
  "push_terminal terminal s = s\<lparr> this_terminals := this_terminals s @ [terminal] \<rparr>"

definition show_terminal :: "Terminal \<Rightarrow> bool \<Rightarrow> world \<Rightarrow> world" where
  "show_terminal terminal preserveFocus s =
     s\<lparr> show_calls := show_calls s @ [(terminal_id terminal, preserveFocus)] \<rparr>"

definition sleep :: "nat \<Rightarrow> world \<Rightarrow> world" where
  "sleep ms s = s\<lparr> awaited := awaited s + ms \<rparr>"

text \<open>
  The loop of \<open>launchTerminalGroup\<close> from index \<open>i\<close> on, over the terminals still to
  come; \<open>n\<close> is \<open>group.terminals.length\<close>. The test \<open>i < n - 1\<close> is written \<open>i + 1 < n\<close>.
\<close>

fun launch_group_loop ::
  "PathApi \<Rightarrow> nat \<Rightarrow> nat \<Rightarrow> TerminalConfig list \<Rightarrow> string option \<Rightarrow> duplicate_action \<Rightarrow> world \<Rightarrow> world" where
  "launch_group_loop P n i [] projectBasePath duplicateAction s = s"
| "launch_group_loop P n i (config # rest) projectBasePath duplicateAction s =
     (case createTerminal P config projectBasePath duplicateAction s of
        (None, s1) \<Rightarrow> launch_group_loop P n (Suc i) rest projectBasePath duplicateAction s1
      | (Some terminal, s1) \<Rightarrow>
          let s2 = show_terminal terminal (i = 0) (push_terminal terminal s1);
              s3 = (if i + 1 < n then sleep 200 s2 else s2)
          in launch_group_loop P n (Suc i) rest projectBasePath duplicateAction s3)"

definition launchTerminalGroup ::
  "PathApi \<Rightarrow> TerminalGroupConfig \<Rightarrow> string option \<Rightarrow> duplicate_action \<Rightarrow> world \<Rightarrow> world" where
  "launchTerminalGroup P terminalGroup projectBasePath duplicateAction s =
     (case group_terminals terminalGroup of
        None \<Rightarrow> s
      | Some ts \<Rightarrow>
          if length ts = 0 then s
          else launch_group_loop P (length ts) 0 ts projectBasePath duplicateAction s)"

text \<open>\<open>for (const group of config.groups)\<close>.\<close>

fun launch_groups ::
  "PathApi \<Rightarrow> TerminalGroupConfig list \<Rightarrow> string option \<Rightarrow> duplicate_action \<Rightarrow> world \<Rightarrow> world" where
  "launch_groups P [] projectBasePath duplicateAction s = s"
| "launch_groups P (terminalGroup # rest) projectBasePath duplicateAction s =
     launch_groups P rest projectBasePath duplicateAction
       (launchTerminalGroup P terminalGroup projectBasePath duplicateAction s)"

text \<open>The loop over the ungrouped terminals, from index \<open>i\<close> on.\<close>

fun launch_ungrouped_loop ::
  "PathApi \<Rightarrow> nat \<Rightarrow> TerminalConfig list \<Rightarrow> string option \<Rightarrow> duplicate_action \<Rightarrow> world \<Rightarrow> world" where
  "launch_ungrouped_loop P i [] projectBasePath duplicateAction s = s"
| "launch_ungrouped_loop P i (config # rest) projectBasePath duplicateAction s =
     (case createTerminal P config projectBasePath duplicateAction s of
        (None, s1) \<Rightarrow> launch_ungrouped_loop P (Suc i) rest projectBasePath duplicateAction s1
      | (Some terminal, s1) \<Rightarrow>
          launch_ungrouped_loop P (Suc i) rest projectBasePath duplicateAction
            (show_terminal terminal (i = 0) (push_terminal terminal s1)))"

definition launchTerminals ::
  "PathApi \<Rightarrow> TerminalLauncherConfig \<Rightarrow> string option \<Rightarrow> quick_pick_item option \<Rightarrow> world \<Rightarrow> world" where
  "launchTerminals P config projectBasePath answer s =
     (let duplicateAction = checkForDuplicateTerminals P config projectBasePath answer s in
      if duplicateAction = Cancel then s
      else if (case groups config of None \<Rightarrow> False | Some gs \<Rightarrow> length gs > 0) then
        launch_groups P (the (groups config)) projectBasePath duplicateAction s
      else if (case terminals config of None \<Rightarrow> False | Some ts \<Rightarrow> length ts > 0) then
        launch_ungrouped_loop P 0 (the (terminals config)) projectBasePath duplicateAction s
      else s)"

section \<open>The batch in the specification's words\<close>

text \<open>
  A launch request: a terminal entry, its position in its own list (a group's
  terminals or the ungrouped terminals), and whether a creation is followed by the
  200 millisecond stagger.
\<close>

record request =
  rq_config :: TerminalConfig
  rq_index :: nat
  rq_stagger :: bool

text \<open>
  The flattening rule: when \<open>groups\<close> is non-empty the batch is the terminals of each
  group in declared order; otherwise it is the ungrouped terminals.
\<close>

definition group_requests :: "TerminalGroupConfig \<Rightarrow> request list" where
  "group_requests terminalGroup =
     (case group_terminals terminalGroup of
        None \<Rightarrow> []
      | Some ts \<Rightarrow>
          map (\<lambda>(i, config). \<lparr> rq_config = config, rq_index = i, rq_stagger = (i + 1 < length ts) \<rparr>)
            (enumerate 0 ts))"

definition ungrouped_requests :: "TerminalConfig list \<Rightarrow> request list" where
  "ungrouped_requests ts =
     map (\<lambda>(i, config). \<lparr> rq_config = config, rq_index = i, rq_stagger = False \<rparr>) (enumerate 0 ts)"

definition batch :: "TerminalLauncherConfig \<Rightarrow> request list" where
  "batch config =
     (case groups config of
        Some (g # gs) \<Rightarrow> concat (map group_requests (g # gs))
      | _ \<Rightarrow> (case terminals config of None \<Rightarrow> [] | Some ts \<Rightarrow> ungrouped_requests ts))"

text \<open>
  Per-request creation: create the terminal; if one was created, track it, show it
  with \<open>preserveFocus\<close> true exactly for the request at index 0, and wait if the
  request staggers.
\<close>

definition launch_request :: "PathApi \<Rightarrow> string option \<Rightarrow> duplicate_action \<Rightarrow> request \<Rightarrow> world \<Rightarrow> world" where
  "launch_request P projectBasePath duplicateAction r s =
     (case createTerminal P (rq_config r) projectBasePath duplicateAction s of
        (None, s1) \<Rightarrow> s1
      | (Some terminal, s1) \<Rightarrow>
          let s2 = show_terminal terminal (rq_index r = 0) (push_terminal terminal s1)
          in if rq_stagger r then sleep 200 s2 else s2)"


text \<open>A group's terminals as a list, empty when the field is absent.\<close>

definition terminals_of :: "TerminalGroupConfig \<Rightarrow> TerminalConfig list" where
  "terminals_of terminalGroup =
     (case group_terminals terminalGroup of None \<Rightarrow> [] | Some ts \<Rightarrow> ts)"

section \<open>Sample states\<close>

text \<open>
  A state to run the manager on: live terminals with the given names, created with
  no other option, the given workspace folders, a host that refuses nothing, and
  empty logs.
\<close>

definition named_terminal :: "nat \<Rightarrow> string \<Rightarrow> Terminal" where
  "named_terminal i n =
     \<lparr> terminal_id = i,
       creationOptions =
         \<lparr> opt_name = n, opt_cwd = None, opt_env = None, opt_shellPath = None,
           opt_shellArgs = None, opt_color = None, opt_iconPath = None \<rparr> \<rparr>"

definition host_with :: "string list \<Rightarrow> string list option \<Rightarrow> world" where
  "host_with names folders =
     \<lparr> this_terminals = [],
       window_terminals = map (\<lambda>(i, n). named_terminal i n) (enumerate 0 names),
       workspaceFolders = folders,
       host_refuses = (\<lambda>terminalOptions. False),
       next_terminal_id = length names,
       error_messages = [],
       show_calls = [],
       timeouts = [],
       awaited = 0 \<rparr>"

text \<open>
  Configurations to run the manager on: two groups and an ungrouped list all
  populated, and an ungrouped list alone.
\<close>

definition grouped_config :: TerminalLauncherConfig where
  "grouped_config =
     \<lparr> version = None,
       groups = Some [\<lparr> group_name = None, group_terminals = Some [bare ''A''] \<rparr>,
                      \<lparr> group_name = Some ''dev'', group_terminals = Some [bare ''B'', bare ''C''] \<rparr>],
       terminals = Some [bare ''U''] \<rparr>"

definition ungrouped_config :: TerminalLauncherConfig where
  "ungrouped_config =
     \<lparr> version = None, groups = None, terminals = Some [bare ''A'', bare ''B''] \<rparr>"

section \<open>Properties of command dispatch\<close>

lemma call_text_setTimeout_sendText [simp]:
  "call_text (setTimeout_sendText index delay cmd) = cmd"
  by (simp add: setTimeout_sendText_def)

lemma executeTerminalCommands_texts:
  "map call_text (executeTerminalCommands P config basePath) =
     (case effective_source config of None \<Rightarrow> [] | Some src \<Rightarrow> source_texts P basePath src)"
  by (auto simp: executeTerminalCommands_def effective_source_def truthy_def enumerate_eq_zip
           split: option.splits list.splits prod.splits intro!: nth_equalityI)

lemma effective_commandsD:
  "effective_source config = Some (FromCommands cs) \<Longrightarrow>
     \<not> truthy (script config) \<and> commands config = Some cs \<and> cs \<noteq> []"
  by (auto simp: effective_source_def truthy_def split: option.splits list.splits)

text \<open>
  Claim C2, as amended. For every TerminalConfig, the texts sent are those of exactly
  one source, chosen by the priority script > commands > command among the sources
  that are present and non-empty, and nothing is sent when there is no such source.
  In particular a present, non-empty script is the only thing dispatched (as its
  resolved path) whatever \<open>commands\<close> and \<open>command\<close> hold, and with all three fields
  absent no text is injected.
\<close>

theorem executeTerminalCommands_priority:
  "map call_text (executeTerminalCommands P config basePath) =
     (case effective_source config of None \<Rightarrow> [] | Some src \<Rightarrow> source_texts P basePath src)
   \<and> (\<forall>s. script config = Some s \<and> s \<noteq> [] \<longrightarrow>
         executeTerminalCommands P config basePath =
           [SendText (if path_isAbsolute P s then s else path_join P basePath s)])
   \<and> (script config = None \<and> commands config = None \<and> command config = None \<longrightarrow>
         executeTerminalCommands P config basePath = [])"
  using executeTerminalCommands_texts[of P config basePath]
  by (auto simp: executeTerminalCommands_def truthy_def)

text \<open>
  The theorem at an entry holding all three sources, and at an entry holding none.
\<close>

theorem executeTerminalCommands_priority_witness:
  "script ((bare ''A'')\<lparr> script := Some ''run.sh'', commands := Some [''a'', ''b''],
              command := Some ''c'' \<rparr>) = Some ''run.sh''
   \<and> executeTerminalCommands posix
        ((bare ''A'')\<lparr> script := Some ''run.sh'', commands := Some [''a'', ''b''],
           command := Some ''c'' \<rparr>) ''/w''
       = [SendText ''/w/run.sh'']
   \<and> executeTerminalCommands posix (bare ''A'') ''/w'' = []"
proof -
  let ?c = "(bare ''A'')\<lparr> script := Some ''run.sh'', commands := Some [''a'', ''b''],
              command := Some ''c'' \<rparr>"
  have a: "script ?c = Some ''run.sh'' \<and> ''run.sh'' \<noteq> []" by (simp add: bare_def)
  have b: "script (bare ''A'') = None \<and> commands (bare ''A'') = None \<and> command (bare ''A'') = None"
    by (simp add: bare_def)
  have j: "(if path_isAbsolute posix ''run.sh'' then ''run.sh''
            else path_join posix ''/w'' ''run.sh'') = ''/w/run.sh''"
    by (simp add: posix_def posix_isAbsolute_def posix_join_def posix_normalize_def)
  have "\<forall>s. script ?c = Some s \<and> s \<noteq> [] \<longrightarrow>
         executeTerminalCommands posix ?c ''/w'' =
           [SendText (if path_isAbsolute posix s then s else path_join posix ''/w'' s)]"
    using executeTerminalCommands_priority[of posix ?c "''/w''"] by blast
  with a have "executeTerminalCommands posix ?c ''/w'' =
      [SendText (if path_isAbsolute posix ''run.sh'' then ''run.sh''
                 else path_join posix ''/w'' ''run.sh'')]"
    by blast
  with j have 1: "executeTerminalCommands posix ?c ''/w'' = [SendText ''/w/run.sh'']" by simp
  have 2: "executeTerminalCommands posix (bare ''A'') ''/w'' = []"
    using executeTerminalCommands_priority[of posix "bare ''A''" "''/w''"] b by blast
  show ?thesis using a 1 2 by simp
qed

text \<open>
  Claim C2 as stated fails: an entry whose \<open>script\<close>, \<open>commands\<close> and \<open>command\<close> are all
  present, the script being the empty string, has its commands dispatched, not its
  script (the custom format produces such an entry from a line \<open>script =\<close>).
\<close>

theorem script_present_but_empty_counterexample:
  "script ((bare ''A'')\<lparr> script := Some '''', commands := Some [''a'', ''b''],
              command := Some ''c'' \<rparr>) = Some ''''
   \<and> executeTerminalCommands posix
        ((bare ''A'')\<lparr> script := Some '''', commands := Some [''a'', ''b''],
           command := Some ''c'' \<rparr>) ''/w''
       = [SendTextAfter 0 ''a'', SendTextAfter 100 ''b'']"
  by (simp add: executeTerminalCommands_def bare_def truthy_def delay_or_default_def
        setTimeout_sendText_def enumerate_eq_zip upt_rec)

lemma setTimeout_sendText_exact:
  "\<bar>index * delay\<bar> \<le> 2 ^ 53 \<Longrightarrow>
     setTimeout_sendText index delay cmd = SendTextAfter (index * delay) cmd"
  by (simp add: setTimeout_sendText_def)

lemma commands_calls:
  assumes "effective_source config = Some (FromCommands cs)"
  shows "executeTerminalCommands P config basePath =
      map (\<lambda>(index, cmd). setTimeout_sendText (int index) (delay_or_default (commandDelay config)) cmd)
        (enumerate 0 cs)"
  using effective_commandsD[OF assms] by (simp add: executeTerminalCommands_def)

text \<open>
  Claim C6, as amended. Take a TerminalConfig whose effective source is its commands,
  whose \<open>commandDelay\<close> is absent (then \<open>d = 100\<close>) or an integer \<open>d\<close> of at least 1, and
  for whose \<open>n\<close> commands \<open>(n - 1) * d\<close> does not exceed \<open>2^31 - 1\<close>. Then one timer is
  set per entry, the timer of the i-th entry with \<open>i * d\<close> milliseconds. Every entry
  but the first is sent exactly \<open>i * d\<close> milliseconds after session readiness, the
  first at the timer's minimum of 1 millisecond, and the entries are sent in array
  order.
\<close>

theorem commands_dispatch_offsets:
  assumes "effective_source config = Some (FromCommands cs)"
    and "commandDelay config = None \<and> d = 100 \<or> commandDelay config = Some d \<and> 1 \<le> d"
    and "(int (length cs) - 1) * d \<le> 2147483647"
  shows "length (executeTerminalCommands P config basePath) = length cs
    \<and> (\<forall>i < length cs.
          executeTerminalCommands P config basePath ! i = SendTextAfter (int i * d) (cs ! i)
          \<and> sent_after (executeTerminalCommands P config basePath ! i)
              = (if i = 0 then 1 else int i * d))
    \<and> map call_text (firing_order (executeTerminalCommands P config basePath)) = cs"
proof -
  let ?calls = "executeTerminalCommands P config basePath"
  from assms(2) have dpos: "1 \<le> d" and dd: "delay_or_default (commandDelay config) = d"
    by (auto simp: delay_or_default_def)
  have range: "0 \<le> int i * d \<and> int i * d \<le> 2147483647" if "i < length cs" for i
  proof -
    from that have "int i \<le> int (length cs) - 1" by simp
    with dpos have "int i * d \<le> (int (length cs) - 1) * d"
      by (intro mult_right_mono) simp_all
    with assms(3) have "int i * d \<le> 2147483647" by linarith
    moreover from dpos have "0 \<le> int i * d" by simp
    ultimately show ?thesis by simp
  qed
  have len: "length ?calls = length cs"
    by (simp add: commands_calls[OF assms(1)])
  have nth: "?calls ! i = SendTextAfter (int i * d) (cs ! i)" if "i < length cs" for i
  proof -
    from range[OF that] have "\<bar>int i * d\<bar> \<le> 2 ^ 53" by simp
    then show ?thesis
      using that
      by (simp add: commands_calls[OF assms(1)] dd nth_enumerate_eq setTimeout_sendText_exact)
  qed
  have after: "sent_after (?calls ! i) = (if i = 0 then 1 else int i * d)" if "i < length cs" for i
  proof (cases "i = 0")
    case True
    with nth[OF that] show ?thesis by simp
  next
    case False
    then have "1 \<le> int i" by simp
    with dpos have "1 * 1 \<le> int i * d" by (intro mult_mono) simp_all
    with range[OF that] nth[OF that] False show ?thesis by simp
  qed
  have mono: "sent_after (?calls ! i) \<le> sent_after (?calls ! j)"
    if "i \<le> j" and "j < length cs" for i j
  proof -
    from that have i: "i < length cs" by simp
    show ?thesis
    proof (cases "i = j")
      case True
      then show ?thesis by simp
    next
      case False
      with that have ij: "i < j" and j0: "j \<noteq> 0" by simp_all
      from ij dpos have "int i * d \<le> int j * d" by (intro mult_right_mono) simp_all
      moreover from j0 dpos have "1 * 1 \<le> int j * d" by (intro mult_mono) simp_all
      ultimately show ?thesis using after[OF i] after[OF that(2)] j0 by simp
    qed
  qed
  have "sorted (map sent_after ?calls)"
    unfolding sorted_iff_nth_mono using mono len by simp
  then have "firing_order ?calls = ?calls"
    unfolding firing_order_def by (rule sort_key_id_if_sorted)
  moreover have "map call_text ?calls = cs"
    using len nth by (intro nth_equalityI) simp_all
  ultimately show ?thesis using len nth after by simp
qed

text \<open>
  The theorem at three commands spaced by 250 milliseconds: the third is sent after
  500, and the three are sent in array order.
\<close>

theorem commands_dispatch_offsets_witness:
  "effective_source ((bare ''A'')\<lparr> commands := Some [''a'', ''b'', ''c''],
                        commandDelay := Some 250 \<rparr>)
     = Some (FromCommands [''a'', ''b'', ''c''])
   \<and> executeTerminalCommands posix
        ((bare ''A'')\<lparr> commands := Some [''a'', ''b'', ''c''], commandDelay := Some 250 \<rparr>)
        ''/w'' ! 2
     = SendTextAfter 500 ''c''
   \<and> sent_after
        (executeTerminalCommands posix
           ((bare ''A'')\<lparr> commands := Some [''a'', ''b'', ''c''], commandDelay := Some 250 \<rparr>)
           ''/w'' ! 2)
     = 500
   \<and> map call_text
        (firing_order
           (executeTerminalCommands posix
              ((bare ''A'')\<lparr> commands := Some [''a'', ''b'', ''c''], commandDelay := Some 250 \<rparr>)
              ''/w''))
     = [''a'', ''b'', ''c'']"
proof -
  let ?c = "(bare ''A'')\<lparr> commands := Some [''a'', ''b'', ''c''], commandDelay := Some 250 \<rparr>"
  have h: "effective_source ?c = Some (FromCommands [''a'', ''b'', ''c''])"
    by (simp add: effective_source_def bare_def)
  have d: "commandDelay ?c = None \<and> (250::int) = 100 \<or> commandDelay ?c = Some 250 \<and> (1::int) \<le> 250"
    by (simp add: bare_def)
  have b: "(int (length [''a'', ''b'', ''c'']) - 1) * 250 \<le> 2147483647" by simp
  note T = commands_dispatch_offsets[OF h d b, of posix "''/w''"]
  from T[THEN conjunct2, THEN conjunct1]
  have "executeTerminalCommands posix ?c ''/w'' ! 2 = SendTextAfter (int 2 * 250) ([''a'', ''b'', ''c''] ! 2)
      \<and> sent_after (executeTerminalCommands posix ?c ''/w'' ! 2) = (if (2::nat) = 0 then 1 else int 2 * 250)"
    by simp
  then have 1: "executeTerminalCommands posix ?c ''/w'' ! 2 = SendTextAfter 500 ''c''"
    and 2: "sent_after (executeTerminalCommands posix ?c ''/w'' ! 2) = 500"
    by simp_all
  from h 1 2 T[THEN conjunct2, THEN conjunct2] show ?thesis by (intro conjI)
qed

text \<open>
  Claim C6 as stated fails outside those bounds. At \<open>commandDelay = 0\<close> the field is
  present, yet \<open>config.commandDelay || 100\<close> takes it for absent and the second entry
  gets a timer of 100, not of \<open>1 * 0\<close>. At \<open>commandDelay = -5\<close> the timers are set to 0,
  -5 and -10, and all three fire after 1 millisecond. At \<open>commandDelay = 1100000000\<close>
  the third timer, 2200000000, exceeds \<open>2^31 - 1\<close> and fires after 1 millisecond: the
  third entry is sent before the second.
\<close>

theorem commandDelay_counterexample:
  "executeTerminalCommands posix
     ((bare ''A'')\<lparr> commands := Some [''a'', ''b''], commandDelay := Some 0 \<rparr>) ''/w''
     = [SendTextAfter 0 ''a'', SendTextAfter 100 ''b'']
   \<and> executeTerminalCommands posix
        ((bare ''A'')\<lparr> commands := Some [''a'', ''b'', ''c''], commandDelay := Some (- 5) \<rparr>) ''/w''
     = [SendTextAfter 0 ''a'', SendTextAfter (- 5) ''b'', SendTextAfter (- 10) ''c'']
   \<and> map sent_after
        (executeTerminalCommands posix
           ((bare ''A'')\<lparr> commands := Some [''a'', ''b'', ''c''], commandDelay := Some (- 5) \<rparr>)
           ''/w'')
     = [1, 1, 1]
   \<and> executeTerminalCommands posix
        ((bare ''A'')\<lparr> commands := Some [''a'', ''b'', ''c''], commandDelay := Some 1100000000 \<rparr>)
        ''/w''
     = [SendTextAfter 0 ''a'', SendTextAfter 1100000000 ''b'', SendTextAfter 2200000000 ''c'']
   \<and> map call_text
        (firing_order
           (executeTerminalCommands posix
              ((bare ''A'')\<lparr> commands := Some [''a'', ''b'', ''c''],
                 commandDelay := Some 1100000000 \<rparr>) ''/w''))
     = [''a'', ''c'', ''b'']"
  by code_simp

text \<open>
  Claim C10, as amended. For every TerminalConfig with no script, whose \<open>commands\<close> is
  present but empty and whose \<open>command\<close> is present and non-empty, dispatch sends that
  single command: the empty list neither takes priority nor suppresses injection.
\<close>

theorem empty_commands_falls_through:
  assumes "script config = None" and "commands config = Some []"
    and "command config = Some c" and "c \<noteq> []"
  shows "executeTerminalCommands P config basePath = [SendText c]"
  using assms by (simp add: executeTerminalCommands_def truthy_def)

theorem empty_commands_falls_through_witness:
  "executeTerminalCommands posix
     ((bare ''A'')\<lparr> commands := Some [], command := Some ''npm start'' \<rparr>) ''/w''
     = [SendText ''npm start'']"
  by (rule empty_commands_falls_through) (simp_all add: bare_def)

text \<open>
  Claim C10 as stated fails when the present \<open>command\<close> is the empty string: nothing is
  sent, where sending the command would have been \<open>sendText("")\<close>.
\<close>

theorem empty_command_counterexample:
  "script ((bare ''A'')\<lparr> commands := Some [], command := Some '''' \<rparr>) = None
   \<and> commands ((bare ''A'')\<lparr> commands := Some [], command := Some '''' \<rparr>) = Some []
   \<and> command ((bare ''A'')\<lparr> commands := Some [], command := Some '''' \<rparr>) = Some ''''
   \<and> executeTerminalCommands posix
        ((bare ''A'')\<lparr> commands := Some [], command := Some '''' \<rparr>) ''/w'' = []"
  by (simp add: executeTerminalCommands_def bare_def truthy_def)

section \<open>Properties of the custom text format\<close>

lemma split_on_first: "\<exists>rest. split_on c s = takeWhile (\<lambda>x. x \<noteq> c) s # rest"
  by (induction s) (auto split: list.splits)

lemma parse_line_header:
  "is_header line \<Longrightarrow>
     parse_line line st =
       \<lparr> config_terminals = flushed st,
         currentTerminal = Some (bare (slice_1_minus1 (trim line))) \<rparr>"
  by (simp add: parse_line_def is_header_def flushed_def)

lemma parse_line_body:
  "\<not> is_header line \<Longrightarrow> currentTerminal st = Some t \<Longrightarrow>
     parse_line line st = st\<lparr> currentTerminal := Some (line_effect line t) \<rparr>"
  using split_on_first[of "CHR ''=''" "trim line"]
  by (auto simp: parse_line_def is_header_def line_effect_def line_key_def Let_def)

lemma parse_line_closed:
  "\<not> is_header line \<Longrightarrow> currentTerminal st = None \<Longrightarrow> parse_line line st = st"
  by (simp add: parse_line_def is_header_def Let_def)

lemma flushed_open [simp]:
  "flushed \<lparr> config_terminals = out, currentTerminal = Some t \<rparr> = out @ [t]"
  by (simp add: flushed_def)

lemma parse_lines_flushed:
  "flushed (parse_lines ls st) =
     config_terminals st
     @ (case currentTerminal st of
          None \<Rightarrow> []
        | Some t \<Rightarrow> [fold line_effect (takeWhile (\<lambda>l. \<not> is_header l) ls) t])
     @ map (\<lambda>(h, body). fold line_effect body (bare h)) (opened_records ls)"
proof (induction ls arbitrary: st)
  case Nil
  show ?case by (simp add: flushed_def split: option.splits)
next
  case (Cons l ls)
  show ?case
  proof (cases "is_header l")
    case True
    have "flushed (parse_lines (l # ls) st) =
        flushed st @ [fold line_effect (takeWhile (\<lambda>l. \<not> is_header l) ls)
                        (bare (slice_1_minus1 (trim l)))]
        @ map (\<lambda>(h, body). fold line_effect body (bare h)) (opened_records ls)"
      using True by (simp add: Cons.IH parse_line_header)
    with True show ?thesis
      by (simp add: flushed_def split: option.splits)
  next
    case False
    show ?thesis
    proof (cases "currentTerminal st")
      case None
      with False show ?thesis by (simp add: Cons.IH parse_line_closed)
    next
      case (Some t)
      with False show ?thesis by (simp add: Cons.IH parse_line_body)
    qed
  qed
qed

lemma mem_fields_set: "x \<in> fields_set t \<longleftrightarrow> has_field x t"
  unfolding fields_set_def set_filter by (simp add: has_field_def)

lemma assign_key_unrecognised: "k \<notin> recognised_keys \<Longrightarrow> assign_key k v t = t"
  by (simp add: assign_key_def recognised_keys_def)

lemma has_field_assign_key:
  "has_field x (assign_key k v t) \<longleftrightarrow> has_field x t \<or> (x = k \<and> k \<in> recognised_keys)"
proof -
  consider "k = ''cwd''" | "k = ''command''" | "k = ''commands''" | "k = ''script''"
    | "k = ''color''" | "k = ''icon''" | "k \<notin> recognised_keys"
    unfolding recognised_keys_def by blast
  then show ?thesis
  proof cases
    case 1 then show ?thesis
      by (simp add: assign_key_def has_field_def recognised_keys_def)
  next
    case 2 then show ?thesis
      by (simp add: assign_key_def has_field_def recognised_keys_def)
  next
    case 3 then show ?thesis
      by (simp add: assign_key_def has_field_def recognised_keys_def)
  next
    case 4 then show ?thesis
      by (simp add: assign_key_def has_field_def recognised_keys_def)
  next
    case 5 then show ?thesis
      by (simp add: assign_key_def has_field_def recognised_keys_def)
  next
    case 6 then show ?thesis
      by (simp add: assign_key_def has_field_def recognised_keys_def)
  next
    case 7
    then show ?thesis by (simp add: assign_key_unrecognised)
  qed
qed

lemma fields_set_assign_key:
  "fields_set (assign_key k v t) = fields_set t \<union> ({k} \<inter> recognised_keys)"
proof (rule set_eqI)
  fix x
  show "x \<in> fields_set (assign_key k v t) \<longleftrightarrow> x \<in> fields_set t \<union> ({k} \<inter> recognised_keys)"
    unfolding Un_iff Int_iff mem_fields_set has_field_assign_key by blast
qed

lemma name_assign_key [simp]: "name (assign_key k v t) = name t"
  by (simp add: assign_key_def)

lemma name_line_effect [simp]: "name (line_effect l t) = name t"
  by (simp add: line_effect_def split: option.splits)

lemma fields_set_line_effect:
  "fields_set (line_effect l t) = fields_set t \<union> (set_option (line_key l) \<inter> recognised_keys)"
  by (simp add: line_effect_def fields_set_assign_key split: option.splits)

lemma name_fold_line_effect [simp]: "name (fold line_effect body t) = name t"
  by (induction body arbitrary: t) simp_all

lemma keys_present_Nil [simp]: "keys_present [] = {}"
  by (simp add: keys_present_def List.map_filter_def)

lemma keys_present_Cons:
  "keys_present (l # body) = set_option (line_key l) \<union> keys_present body"
  by (cases "line_key l") (simp_all add: keys_present_def List.map_filter_def)

lemma fields_set_fold_line_effect:
  "fields_set (fold line_effect body t) = fields_set t \<union> (keys_present body \<inter> recognised_keys)"
proof (induction body arbitrary: t)
  case Nil
  show ?case by simp
next
  case (Cons l body)
  show ?case
    by (simp add: Cons.IH fields_set_line_effect keys_present_Cons Un_assoc Int_Un_distrib2)
qed

lemma fields_set_bare [simp]: "fields_set (bare h) = {}"
  by (simp add: fields_set_def has_field_def bare_def)

lemma name_bare [simp]: "name (bare h) = h"
  by (simp add: bare_def)

text \<open>
  Claim C8. For every custom-format input, the parser's terminal sequence holds one
  record per header line, in the order of the headers, each named by its header: a
  record is flushed exactly once, whether closed by the next header or by the end of
  the input. The optional fields a record carries are exactly the recognised keys
  that occur as \<open>key = value\<close> lines in its body, so no key is set that was not
  present inside the record.
\<close>

theorem parseCustomFormat_records:
  "\<exists>ts. terminals (parseCustomFormat content) = Some ts
      \<and> map name ts = map fst (opened_records (config_lines content))
      \<and> map fields_set ts =
          map (\<lambda>(h, body). keys_present body \<inter> recognised_keys)
            (opened_records (config_lines content))"
proof -
  let ?st = "parse_lines (config_lines content) \<lparr> config_terminals = [], currentTerminal = None \<rparr>"
  have t: "terminals (parseCustomFormat content) = Some (flushed ?st)"
    by (simp add: parseCustomFormat_def flushed_def Let_def)
  have f: "flushed ?st =
      map (\<lambda>(h, body). fold line_effect body (bare h)) (opened_records (config_lines content))"
    by (simp add: parse_lines_flushed)
  have n: "map name (flushed ?st) = map fst (opened_records (config_lines content))"
    unfolding f by (simp add: case_prod_unfold)
  have k: "map fields_set (flushed ?st) =
      map (\<lambda>(h, body). keys_present body \<inter> recognised_keys) (opened_records (config_lines content))"
    unfolding f by (simp add: case_prod_unfold fields_set_fold_line_effect)
  from t n k show ?thesis by blast
qed

lemma sample_opened_records:
  "opened_records (config_lines sample_content) =
     [(''api'', [''cwd = ./api'', ''commands = a ; b;c '']), (''web'', [''command = x''])]"
  by code_simp

lemma sample_keys_api:
  "keys_present [''cwd = ./api'', ''commands = a ; b;c ''] \<inter> recognised_keys
     = {''cwd'', ''commands''}"
  by code_simp

lemma sample_keys_web: "keys_present [''command = x''] \<inter> recognised_keys = {''command''}"
  by code_simp

text \<open>The theorem on the sample input: two headers, two records, three keys.\<close>

theorem parseCustomFormat_records_witness:
  "\<exists>ts. terminals (parseCustomFormat sample_content) = Some ts
      \<and> map name ts = [''api'', ''web'']
      \<and> map fields_set ts = [{''cwd'', ''commands''}, {''command''}]"
  using parseCustomFormat_records[of sample_content] unfolding sample_opened_records
  by (simp add: sample_keys_api sample_keys_web)

section \<open>Properties of launching\<close>

lemma launch_group_loop_fold:
  "launch_group_loop P n i cs pb a s =
     fold (launch_request P pb a)
       (map (\<lambda>(j, config). \<lparr> rq_config = config, rq_index = j, rq_stagger = (j + 1 < n) \<rparr>)
          (enumerate i cs)) s"
proof (induction cs arbitrary: i s)
  case Nil
  show ?case by simp
next
  case (Cons c cs)
  show ?case
    by (simp add: Cons.IH launch_request_def Let_def split: prod.splits option.splits)
qed

lemma launch_ungrouped_loop_fold:
  "launch_ungrouped_loop P i cs pb a s =
     fold (launch_request P pb a)
       (map (\<lambda>(j, config). \<lparr> rq_config = config, rq_index = j, rq_stagger = False \<rparr>)
          (enumerate i cs)) s"
proof (induction cs arbitrary: i s)
  case Nil
  show ?case by simp
next
  case (Cons c cs)
  show ?case
    by (simp add: Cons.IH launch_request_def Let_def split: prod.splits option.splits)
qed

lemma launchTerminalGroup_fold:
  "launchTerminalGroup P g pb a s = fold (launch_request P pb a) (group_requests g) s"
  by (cases "group_terminals g")
     (simp_all add: launchTerminalGroup_def group_requests_def launch_group_loop_fold)

lemma launch_groups_fold:
  "launch_groups P gs pb a s = fold (launch_request P pb a) (concat (map group_requests gs)) s"
  by (induction gs arbitrary: s) (simp_all add: launchTerminalGroup_fold)

lemma launchTerminals_batch:
  "launchTerminals P config pb answer s =
     (if checkForDuplicateTerminals P config pb answer s = Cancel then s
      else fold (launch_request P pb (checkForDuplicateTerminals P config pb answer s))
             (batch config) s)"
proof (cases "groups config")
  case None
  then show ?thesis
    by (cases "terminals config")
       (simp_all add: launchTerminals_def batch_def launch_ungrouped_loop_fold
          ungrouped_requests_def Let_def)
next
  case (Some gs)
  show ?thesis
  proof (cases gs)
    case Nil
    with Some show ?thesis
      by (cases "terminals config")
         (simp_all add: launchTerminals_def batch_def launch_ungrouped_loop_fold
            ungrouped_requests_def Let_def)
  next
    case (Cons g gs')
    with Some show ?thesis
      by (simp add: launchTerminals_def batch_def launch_groups_fold Let_def)
  qed
qed

lemma terminalNames_batch:
  "terminalNames P config pb = map (\<lambda>r. prefixed_name P pb (name (rq_config r))) (batch config)"
proof -
  have g: "map (\<lambda>r. prefixed_name P pb (name (rq_config r))) (group_requests g)
      = (case group_terminals g of None \<Rightarrow> []
         | Some ts \<Rightarrow> map (\<lambda>terminal. prefixed_name P pb (name terminal)) ts)" for g
    by (cases "group_terminals g")
       (auto simp: group_requests_def enumerate_eq_zip intro!: nth_equalityI)
  have u: "map (\<lambda>r. prefixed_name P pb (name (rq_config r))) (ungrouped_requests ts)
      = map (\<lambda>terminal. prefixed_name P pb (name terminal)) ts" for ts
    by (auto simp: ungrouped_requests_def enumerate_eq_zip intro!: nth_equalityI)
  show ?thesis
  proof (cases "groups config")
    case None
    then show ?thesis
      by (cases "terminals config") (simp_all add: terminalNames_def batch_def u)
  next
    case (Some gs)
    show ?thesis
    proof (cases gs)
      case Nil
      with Some show ?thesis
        by (cases "terminals config") (simp_all add: terminalNames_def batch_def u)
    next
      case (Cons g' gs')
      with Some show ?thesis
        by (simp add: terminalNames_def batch_def map_concat g comp_def)
    qed
  qed
qed

lemma batch_ignores_ungrouped:
  "groups config = Some (g # gs) \<Longrightarrow> batch (config\<lparr> terminals := ts \<rparr>) = batch config"
  by (simp add: batch_def)

lemma checkForDuplicateTerminals_batch:
  "batch config' = batch config \<Longrightarrow>
     checkForDuplicateTerminals P config' pb answer s = checkForDuplicateTerminals P config pb answer s"
  by (simp add: checkForDuplicateTerminals_def duplicates_def terminalNames_batch)

lemma rq_config_group_requests: "map rq_config (group_requests g) = terminals_of g"
  by (cases "group_terminals g")
     (auto simp: group_requests_def terminals_of_def enumerate_eq_zip intro!: nth_equalityI)

lemma rq_config_ungrouped_requests: "map rq_config (ungrouped_requests ts) = ts"
  by (auto simp: ungrouped_requests_def enumerate_eq_zip intro!: nth_equalityI)



text \<open>
  Claim C1. When \<open>groups\<close> is non-empty, a launch runs per-request creation over the
  terminals of each group in declared order and over nothing else: the outcome is the
  same whatever the ungrouped \<open>terminals\<close> list holds, so none of its entries is
  launched. Only when \<open>groups\<close> is empty or absent are the requests those of the
  ungrouped list.
\<close>

theorem groups_exclude_ungrouped:
  "launchTerminals P config pb answer s =
     (if checkForDuplicateTerminals P config pb answer s = Cancel then s
      else fold (launch_request P pb (checkForDuplicateTerminals P config pb answer s))
             (batch config) s)
   \<and> (\<forall>gs. groups config = Some gs \<and> gs \<noteq> [] \<longrightarrow>
         map rq_config (batch config) = concat (map terminals_of gs)
         \<and> (\<forall>ungrouped. launchTerminals P (config\<lparr> terminals := ungrouped \<rparr>) pb answer s
                          = launchTerminals P config pb answer s))
   \<and> (groups config = None \<or> groups config = Some [] \<longrightarrow>
         map rq_config (batch config) = (case terminals config of None \<Rightarrow> [] | Some ts \<Rightarrow> ts))"
proof (intro conjI allI impI)
  show "launchTerminals P config pb answer s =
     (if checkForDuplicateTerminals P config pb answer s = Cancel then s
      else fold (launch_request P pb (checkForDuplicateTerminals P config pb answer s))
             (batch config) s)"
    by (rule launchTerminals_batch)
next
  fix gs assume "groups config = Some gs \<and> gs \<noteq> []"
  then obtain g gs' where g: "groups config = Some (g # gs')" and gs: "gs = g # gs'"
    by (cases gs) auto
  from g show "map rq_config (batch config) = concat (map terminals_of gs)"
    unfolding gs by (simp add: batch_def map_concat rq_config_group_requests comp_def)
  fix ungrouped
  have b: "batch (config\<lparr> terminals := ungrouped \<rparr>) = batch config"
    using g by (rule batch_ignores_ungrouped)
  show "launchTerminals P (config\<lparr> terminals := ungrouped \<rparr>) pb answer s
          = launchTerminals P config pb answer s"
    unfolding launchTerminals_batch checkForDuplicateTerminals_batch[OF b] b ..
next
  assume "groups config = None \<or> groups config = Some []"
  then show "map rq_config (batch config) = (case terminals config of None \<Rightarrow> [] | Some ts \<Rightarrow> ts)"
    by (cases "terminals config") (auto simp: batch_def rq_config_ungrouped_requests)
qed

lemma grouped_config_names:
  "map terminal_name
     (window_terminals
        (launchTerminals posix grouped_config (Some ''/home/u/proj'') None (host_with [] None)))
   = [''[proj] A'', ''[proj] B'', ''[proj] C'']"
  by code_simp

text \<open>
  The theorem on a configuration whose groups and ungrouped list are both populated
  (three sessions, none for the ungrouped entry), and on one with no groups.
\<close>

theorem groups_exclude_ungrouped_witness:
  "map rq_config (batch grouped_config) = [bare ''A'', bare ''B'', bare ''C'']
   \<and> launchTerminals posix (grouped_config\<lparr> terminals := None \<rparr>) (Some ''/home/u/proj'') None
        (host_with [] None)
     = launchTerminals posix grouped_config (Some ''/home/u/proj'') None (host_with [] None)
   \<and> map terminal_name
        (window_terminals
           (launchTerminals posix (grouped_config\<lparr> terminals := None \<rparr>) (Some ''/home/u/proj'')
              None (host_with [] None)))
     = [''[proj] A'', ''[proj] B'', ''[proj] C'']
   \<and> map rq_config (batch ungrouped_config) = [bare ''A'', bare ''B'']"
proof -
  let ?gs = "[\<lparr> group_name = None, group_terminals = Some [bare ''A''] \<rparr>,
              \<lparr> group_name = Some ''dev'', group_terminals = Some [bare ''B'', bare ''C''] \<rparr>]"
  have g: "groups grouped_config = Some ?gs \<and> ?gs \<noteq> []"
    by (simp add: grouped_config_def)
  from groups_exclude_ungrouped[of posix grouped_config "Some ''/home/u/proj''" None "host_with [] None"] g
  have 1: "map rq_config (batch grouped_config) = concat (map terminals_of ?gs)"
    and 2: "launchTerminals posix (grouped_config\<lparr> terminals := None \<rparr>) (Some ''/home/u/proj'') None
              (host_with [] None)
            = launchTerminals posix grouped_config (Some ''/home/u/proj'') None (host_with [] None)"
    by blast+
  have u: "groups ungrouped_config = None \<or> groups ungrouped_config = Some []"
    by (simp add: ungrouped_config_def)
  from groups_exclude_ungrouped[of posix ungrouped_config None None "host_with [] None"] u
  have 3: "map rq_config (batch ungrouped_config)
            = (case terminals ungrouped_config of None \<Rightarrow> [] | Some ts \<Rightarrow> ts)"
    by blast
  from 1 have g1: "map rq_config (batch grouped_config) = [bare ''A'', bare ''B'', bare ''C'']"
    by (simp add: terminals_of_def)
  from 3 have u1: "map rq_config (batch ungrouped_config) = [bare ''A'', bare ''B'']"
    by (simp add: ungrouped_config_def)
  show ?thesis
    unfolding 2 using g1 u1 grouped_config_names by simp
qed





text \<open>
  Claim C5. If the batch-wide conflict-resolution answer is \<open>cancel\<close>, the launch returns
  the state it was given: no session is created and the live sessions are unchanged.
  For every other answer the launch is per-request creation over the batch, under
  that answer. The answer is \<open>cancel\<close> when the user picks the cancel item, and is
  never \<open>cancel\<close> when the user picks another item.
\<close>

theorem cancel_aborts_batch:
  "(checkForDuplicateTerminals P config pb answer s = Cancel \<longrightarrow>
      launchTerminals P config pb answer s = s)
   \<and> (checkForDuplicateTerminals P config pb answer s \<noteq> Cancel \<longrightarrow>
        launchTerminals P config pb answer s =
          fold (launch_request P pb (checkForDuplicateTerminals P config pb answer s))
            (batch config) s)
   \<and> (duplicates P config pb s \<noteq> [] \<and> answer = Some CancelLaunch \<longrightarrow>
        checkForDuplicateTerminals P config pb answer s = Cancel)
   \<and> (\<forall>item. answer = Some item \<and> item \<noteq> CancelLaunch \<longrightarrow>
        checkForDuplicateTerminals P config pb answer s \<noteq> Cancel)"
proof (intro conjI allI impI)
  fix item assume "answer = Some item \<and> item \<noteq> CancelLaunch"
  then show "checkForDuplicateTerminals P config pb answer s \<noteq> Cancel"
    by (cases item) (simp_all add: checkForDuplicateTerminals_def)
qed (simp_all add: launchTerminals_batch checkForDuplicateTerminals_def)

lemma sample_duplicates:
  "duplicates posix ungrouped_config None (host_with [''A''] None) = [''A'']"
  by code_simp

lemma sample_skip_names:
  "map terminal_name
     (window_terminals
        (fold (launch_request posix None Skip) (batch ungrouped_config) (host_with [''A''] None)))
   = [''A'', ''B'']"
  by code_simp

text \<open>
  The theorem with a live terminal \<open>A\<close> and a batch asking for \<open>A\<close> and \<open>B\<close>: cancelled,
  nothing changes; answered with skip, creation proceeds and \<open>B\<close> is added.
\<close>

theorem cancel_aborts_batch_witness:
  "launchTerminals posix ungrouped_config None (Some CancelLaunch) (host_with [''A''] None)
     = host_with [''A''] None
   \<and> map terminal_name
        (window_terminals
           (launchTerminals posix ungrouped_config None (Some SkipExisting) (host_with [''A''] None)))
     = [''A'', ''B'']"
proof -
  let ?s = "host_with [''A''] None"
  have d: "duplicates posix ungrouped_config None ?s \<noteq> []"
    by (simp add: sample_duplicates)
  have c: "checkForDuplicateTerminals posix ungrouped_config None (Some CancelLaunch) ?s = Cancel"
    using cancel_aborts_batch[of posix ungrouped_config None "Some CancelLaunch" ?s] d by blast
  then have 1: "launchTerminals posix ungrouped_config None (Some CancelLaunch) ?s = ?s"
    using cancel_aborts_batch[of posix ungrouped_config None "Some CancelLaunch" ?s] by blast
  have k: "checkForDuplicateTerminals posix ungrouped_config None (Some SkipExisting) ?s = Skip"
    using d by (simp add: checkForDuplicateTerminals_def)
  then have "checkForDuplicateTerminals posix ungrouped_config None (Some SkipExisting) ?s \<noteq> Cancel"
    by simp
  then have "launchTerminals posix ungrouped_config None (Some SkipExisting) ?s =
      fold (launch_request posix None
              (checkForDuplicateTerminals posix ungrouped_config None (Some SkipExisting) ?s))
        (batch ungrouped_config) ?s"
    using cancel_aborts_batch[of posix ungrouped_config None "Some SkipExisting" ?s] by blast
  then have 2: "launchTerminals posix ungrouped_config None (Some SkipExisting) ?s =
      fold (launch_request posix None Skip) (batch ungrouped_config) ?s"
    unfolding k .
  show ?thesis unfolding 1 2 using sample_skip_names by simp
qed

text \<open>
  Claim C9. When the batch has a duplicate, so that the prompt is shown, and the prompt
  is dismissed without a selection, the outcome is \<open>cancel\<close>: the launch returns the
  state it was given and no session is created.
\<close>

theorem dismissed_prompt_cancels:
  assumes "duplicates P config pb s \<noteq> []"
  shows "checkForDuplicateTerminals P config pb None s = Cancel
       \<and> launchTerminals P config pb None s = s"
  using assms by (simp add: launchTerminals_batch checkForDuplicateTerminals_def)

theorem dismissed_prompt_cancels_witness:
  "duplicates posix ungrouped_config None (host_with [''A''] None) = [''A'']
   \<and> checkForDuplicateTerminals posix ungrouped_config None None (host_with [''A''] None) = Cancel
   \<and> launchTerminals posix ungrouped_config None None (host_with [''A''] None)
       = host_with [''A''] None"
proof -
  have d: "duplicates posix ungrouped_config None (host_with [''A''] None) \<noteq> []"
    by (simp add: sample_duplicates)
  from dismissed_prompt_cancels[OF d] sample_duplicates show ?thesis by simp
qed





section \<open>Properties of creating one terminal\<close>

lemma generate_loop_least:
  "\<exists>N. counter \<le> N
     \<and> generate_loop s baseName counter = numbered baseName N
     \<and> findExistingTerminal s (numbered baseName N) = None
     \<and> (\<forall>k. counter \<le> k \<and> k < N \<longrightarrow> findExistingTerminal s (numbered baseName k) \<noteq> None)"
proof (induction s baseName counter rule: generate_loop.induct)
  case (1 s baseName counter)
  show ?case
  proof (cases "findExistingTerminal s (numbered baseName counter) \<noteq> None")
    case True
    from "1.IH"[OF True] obtain N where N: "Suc counter \<le> N"
      "generate_loop s baseName (Suc counter) = numbered baseName N"
      "findExistingTerminal s (numbered baseName N) = None"
      "\<forall>k. Suc counter \<le> k \<and> k < N \<longrightarrow> findExistingTerminal s (numbered baseName k) \<noteq> None"
      by blast
    have "\<forall>k. counter \<le> k \<and> k < N \<longrightarrow> findExistingTerminal s (numbered baseName k) \<noteq> None"
    proof (intro allI impI)
      fix k assume k: "counter \<le> k \<and> k < N"
      show "findExistingTerminal s (numbered baseName k) \<noteq> None"
      proof (cases "k = counter")
        case True
        with \<open>findExistingTerminal s (numbered baseName counter) \<noteq> None\<close> show ?thesis by simp
      next
        case False
        with k have "Suc counter \<le> k \<and> k < N" by simp
        with N(4) show ?thesis by blast
      qed
    qed
    moreover have "generate_loop s baseName counter = numbered baseName N"
      using True N(2) by (simp add: generate_loop.simps[of s baseName counter])
    moreover have "counter \<le> N" using N(1) by simp
    ultimately show ?thesis using N(3) by blast
  next
    case False
    then have "generate_loop s baseName counter = numbered baseName counter"
      by (simp add: generate_loop.simps[of s baseName counter])
    with False show ?thesis by auto
  qed
qed

lemma open_terminal_accepted:
  "\<not> host_refuses s
       \<lparr> opt_name = n, opt_cwd = c, opt_env = env config,
         opt_shellPath = shellPath config, opt_shellArgs = shellArgs config,
         opt_color = (if truthy (color config)
                      then Some (getTerminalColor (the (color config))) else None),
         opt_iconPath = (if truthy (icon config) then icon config else None) \<rparr> \<Longrightarrow>
   \<exists>terminal s'. open_terminal config n c b s = (Some terminal, s')
      \<and> terminal_name terminal = n
      \<and> opt_cwd (creationOptions terminal) = c
      \<and> window_terminals s' = window_terminals s @ [terminal]"
  by (simp add: open_terminal_def Let_def terminal_name_def)

lemma open_terminal_cwd:
  "open_terminal config n c b s = (Some terminal, s') \<Longrightarrow> opt_cwd (creationOptions terminal) = c"
  by (auto simp: open_terminal_def Let_def split: if_splits)

lemma open_terminal_live:
  "open_terminal config n c b s = (r, s') \<Longrightarrow>
     set (window_terminals s) \<subseteq> set (window_terminals s')"
  by (auto simp: open_terminal_def Let_def split: if_splits)

lemma createTerminal_Rename_live:
  "createTerminal P config pb Rename s = (r, s') \<Longrightarrow>
     set (window_terminals s) \<subseteq> set (window_terminals s')"
  by (auto simp: createTerminal_def Let_def split: sum.splits option.splits dest: open_terminal_live)

lemma launch_request_Rename_live:
  "set (window_terminals s) \<subseteq> set (window_terminals (launch_request P pb Rename r s))"
proof (cases "createTerminal P (rq_config r) pb Rename s")
  case (Pair res s1)
  from createTerminal_Rename_live[OF Pair] Pair show ?thesis
    by (cases res)
       (simp_all add: launch_request_def show_terminal_def push_terminal_def sleep_def Let_def)
qed

lemma fold_launch_request_Rename_live:
  "set (window_terminals s) \<subseteq> set (window_terminals (fold (launch_request P pb Rename) rs s))"
proof (induction rs arbitrary: s)
  case Nil
  show ?case by simp
next
  case (Cons r rs)
  from launch_request_Rename_live[of s P pb r] Cons.IH[of "launch_request P pb Rename r s"]
  show ?case by simp
qed

lemma createTerminal_sets_timeout:
  "createTerminal P config pb a s = (Some terminal, s') \<Longrightarrow>
     \<exists>b. timeouts s' = timeouts s @
           [\<lparr> timeout_ms = 500, timeout_terminal = terminal_id terminal,
              timeout_config = config, timeout_basePath = b \<rparr>]"
  by (auto simp: createTerminal_def open_terminal_def dispose_def Let_def
           split: sum.splits option.splits if_splits)

text \<open>
  Claim C3. When the rename policy meets a request whose effective name is held by a
  live session, and the request's path resolves and the host accepts it, the session
  is created under the effective name followed by \<open> (N)\<close>, for the smallest \<open>N\<close> among
  2, 3, 4, ... whose name no live session holds. The new session joins the live
  ones, and under this policy live sessions stay live for the rest of the batch, so
  the names created earlier in the batch are among those avoided.
\<close>

theorem rename_picks_smallest_free_suffix:
  assumes "resolve_cwd P config (effective_basePath pb s) = Inr c"
    and "findExistingTerminal s (prefixed_name P pb (name config)) \<noteq> None"
    and "\<forall>terminalOptions. \<not> host_refuses s terminalOptions"
  shows "\<exists>N terminal s'.
           createTerminal P config pb Rename s = (Some terminal, s')
         \<and> terminal_name terminal = prefixed_name P pb (name config) @ '' ('' @ decimal N @ '')''
         \<and> 2 \<le> N
         \<and> terminal_name terminal \<notin> terminal_name ` set (window_terminals s)
         \<and> (\<forall>k. 2 \<le> k \<and> k < N \<longrightarrow>
               prefixed_name P pb (name config) @ '' ('' @ decimal k @ '')''
                 \<in> terminal_name ` set (window_terminals s))
         \<and> window_terminals s' = window_terminals s @ [terminal]
         \<and> (\<forall>rs. set (window_terminals s')
                 \<subseteq> set (window_terminals (fold (launch_request P pb Rename) rs s')))"
proof -
  let ?base = "prefixed_name P pb (name config)"
  from generate_loop_least[of 2 s ?base] obtain N where N: "2 \<le> N"
    "generateUniqueTerminalName s ?base = numbered ?base N"
    "findExistingTerminal s (numbered ?base N) = None"
    "\<forall>k. 2 \<le> k \<and> k < N \<longrightarrow> findExistingTerminal s (numbered ?base k) \<noteq> None"
    unfolding generateUniqueTerminalName_def by blast
  from assms(2) obtain existing where ex: "findExistingTerminal s ?base = Some existing" by blast
  from assms(3) open_terminal_accepted[of s "numbered ?base N" c config "effective_basePath pb s"]
  obtain terminal s' where t:
    "open_terminal config (numbered ?base N) c (effective_basePath pb s) s = (Some terminal, s')"
    "terminal_name terminal = numbered ?base N"
    "window_terminals s' = window_terminals s @ [terminal]"
    by blast
  have "createTerminal P config pb Rename s = (Some terminal, s')"
    using assms(1) ex t(1) N(2) by (simp add: createTerminal_def Let_def)
  moreover have "terminal_name terminal \<notin> terminal_name ` set (window_terminals s)"
    using N(3) t(2) findExistingTerminal_Some_iff[of s "numbered ?base N"] by simp
  moreover have "\<forall>k. 2 \<le> k \<and> k < N \<longrightarrow>
      ?base @ '' ('' @ decimal k @ '')'' \<in> terminal_name ` set (window_terminals s)"
    using N(4) findExistingTerminal_Some_iff[of s] by (simp add: numbered_def)
  moreover have "terminal_name terminal = ?base @ '' ('' @ decimal N @ '')''"
    using t(2) by (simp add: numbered_def)
  ultimately show ?thesis
    using N(1) t(3) fold_launch_request_Rename_live[of s' P pb] by blast
qed

lemma sample_live_names:
  "terminal_name ` set (window_terminals (host_with [''X'', ''X (2)''] None)) = {''X'', ''X (2)''}"
  by code_simp

text \<open>
  The theorem with live names \<open>X\<close> and \<open>X (2)\<close> and a new request named \<open>X\<close>: the
  session is created as \<open>X (3)\<close>.
\<close>

theorem rename_picks_smallest_free_suffix_witness:
  "\<exists>terminal s'.
     createTerminal posix (bare ''X'') None Rename (host_with [''X'', ''X (2)''] None)
       = (Some terminal, s')
     \<and> terminal_name terminal = ''X (3)''"
proof -
  let ?s = "host_with [''X'', ''X (2)''] None"
  have r: "resolve_cwd posix (bare ''X'') (effective_basePath None ?s) = Inr None"
    by code_simp
  have b: "prefixed_name posix None (name (bare ''X'')) = ''X''"
    by (simp add: prefixed_name_def truthy_def bare_def)
  have e: "findExistingTerminal ?s (prefixed_name posix None (name (bare ''X''))) \<noteq> None"
    unfolding b findExistingTerminal_Some_iff sample_live_names by simp
  have h: "\<forall>terminalOptions. \<not> host_refuses ?s terminalOptions"
    by (simp add: host_with_def)
  from rename_picks_smallest_free_suffix[OF r e h] obtain N terminal s' where
    c: "createTerminal posix (bare ''X'') None Rename ?s = (Some terminal, s')"
    and n: "terminal_name terminal = ''X'' @ '' ('' @ decimal N @ '')''"
    and two: "2 \<le> N"
    and free: "terminal_name terminal \<notin> {''X'', ''X (2)''}"
    and below: "\<forall>k. 2 \<le> k \<and> k < N \<longrightarrow> ''X'' @ '' ('' @ decimal k @ '')'' \<in> {''X'', ''X (2)''}"
    unfolding b sample_live_names by blast
  have d2: "decimal 2 = ''2''" and d3: "decimal 3 = ''3''" by code_simp+
  have "N \<noteq> 2" using n free d2 by auto
  moreover have "\<not> 3 < N"
  proof
    assume "3 < N"
    with below have "''X'' @ '' ('' @ decimal 3 @ '')'' \<in> {''X'', ''X (2)''}" by simp
    then show False by (simp add: d3)
  qed
  ultimately have "N = 3" using two by simp
  with n d3 have "terminal_name terminal = ''X (3)''" by simp
  with c show ?thesis by blast
qed

lemma createTerminal_cwd:
  "createTerminal P config pb a s = (Some terminal, s') \<Longrightarrow>
     resolve_cwd P config (effective_basePath pb s) = Inr (opt_cwd (creationOptions terminal))"
  by (auto simp: createTerminal_def Let_def split: sum.splits option.splits if_splits
           dest: open_terminal_cwd)

lemma resolve_cwd_unresolvable:
  "cwd config = Some c \<Longrightarrow> c \<noteq> [] \<Longrightarrow> \<not> path_isAbsolute P c \<Longrightarrow> \<not> truthy basePath \<Longrightarrow>
     resolve_cwd P config basePath = Inl (CannotResolveRelativePath c)"
  by (simp add: resolve_cwd_def truthy_def)

lemma createTerminal_unresolvable:
  assumes "cwd config = Some c" and "c \<noteq> []" and "\<not> path_isAbsolute P c"
    and "\<not> truthy (effective_basePath pb s)"
  shows "createTerminal P config pb a s =
           (None, s\<lparr> error_messages := error_messages s @ [CannotResolveRelativePath c] \<rparr>)"
  using resolve_cwd_unresolvable[OF assms] by (simp add: createTerminal_def)

text \<open>
  Claim C4, as amended. Where a session is created: an absolute \<open>cwd\<close> is used
  verbatim; a non-empty relative \<open>cwd\<close> is joined to the base path, which is
  \<open>basePath\<close> when that is present and non-empty and otherwise the first workspace
  root; an absent or empty \<open>cwd\<close> resolves to that base path. A non-empty relative
  \<open>cwd\<close> with no non-empty base path makes this one request fail: no session is
  created, the only change is the path-resolution error message, and both loops go on
  with the remaining requests. A request that does not fail so, whose name is free and
  which the host accepts, is created.
\<close>

theorem cwd_resolution:
  "(\<forall>terminal s' c.
      createTerminal P config pb a s = (Some terminal, s')
      \<and> cwd config = Some c \<and> c \<noteq> [] \<and> path_isAbsolute P c \<longrightarrow>
        opt_cwd (creationOptions terminal) = Some c)
   \<and> (\<forall>terminal s' c.
        createTerminal P config pb a s = (Some terminal, s')
        \<and> cwd config = Some c \<and> c \<noteq> [] \<and> \<not> path_isAbsolute P c \<longrightarrow>
          (\<exists>b. effective_basePath pb s = Some b \<and> b \<noteq> []
              \<and> opt_cwd (creationOptions terminal) = Some (path_join P b c)))
   \<and> (\<forall>terminal s'.
        createTerminal P config pb a s = (Some terminal, s')
        \<and> (cwd config = None \<or> cwd config = Some []) \<longrightarrow>
          opt_cwd (creationOptions terminal) = effective_basePath pb s)
   \<and> effective_basePath pb s =
        (if pb \<noteq> None \<and> pb \<noteq> Some [] then pb else first_workspaceFolder s)
   \<and> (\<forall>c. cwd config = Some c \<and> c \<noteq> [] \<and> \<not> path_isAbsolute P c
           \<and> (effective_basePath pb s = None \<or> effective_basePath pb s = Some []) \<longrightarrow>
          createTerminal P config pb a s =
            (None, s\<lparr> error_messages := error_messages s @ [CannotResolveRelativePath c] \<rparr>)
          \<and> (\<forall>i rest.
                launch_ungrouped_loop P i (config # rest) pb a s =
                launch_ungrouped_loop P (Suc i) rest pb a
                  (s\<lparr> error_messages := error_messages s @ [CannotResolveRelativePath c] \<rparr>))
          \<and> (\<forall>n i rest.
                launch_group_loop P n i (config # rest) pb a s =
                launch_group_loop P n (Suc i) rest pb a
                  (s\<lparr> error_messages := error_messages s @ [CannotResolveRelativePath c] \<rparr>)))
   \<and> ((\<forall>c. cwd config = Some c \<and> c \<noteq> [] \<and> \<not> path_isAbsolute P c \<longrightarrow>
             effective_basePath pb s \<noteq> None \<and> effective_basePath pb s \<noteq> Some [])
        \<and> findExistingTerminal s (prefixed_name P pb (name config)) = None
        \<and> (\<forall>terminalOptions. \<not> host_refuses s terminalOptions) \<longrightarrow>
          (\<exists>terminal s'. createTerminal P config pb a s = (Some terminal, s')))"
proof (intro conjI allI impI)
  fix terminal s' c
  assume "createTerminal P config pb a s = (Some terminal, s')
      \<and> cwd config = Some c \<and> c \<noteq> [] \<and> path_isAbsolute P c"
  then show "opt_cwd (creationOptions terminal) = Some c"
    using createTerminal_cwd[of P config pb a s terminal s']
    by (simp add: resolve_cwd_def truthy_def)
next
  fix terminal s' c
  assume h: "createTerminal P config pb a s = (Some terminal, s')
      \<and> cwd config = Some c \<and> c \<noteq> [] \<and> \<not> path_isAbsolute P c"
  with createTerminal_cwd[of P config pb a s terminal s']
  have "resolve_cwd P config (effective_basePath pb s) = Inr (opt_cwd (creationOptions terminal))"
    by simp
  with h show "\<exists>b. effective_basePath pb s = Some b \<and> b \<noteq> []
              \<and> opt_cwd (creationOptions terminal) = Some (path_join P b c)"
    by (cases "effective_basePath pb s") (auto simp: resolve_cwd_def truthy_def split: if_splits)
next
  fix terminal s'
  assume "createTerminal P config pb a s = (Some terminal, s')
      \<and> (cwd config = None \<or> cwd config = Some [])"
  then show "opt_cwd (creationOptions terminal) = effective_basePath pb s"
    using createTerminal_cwd[of P config pb a s terminal s']
    by (auto simp: resolve_cwd_def truthy_def)
next
  show "effective_basePath pb s =
        (if pb \<noteq> None \<and> pb \<noteq> Some [] then pb else first_workspaceFolder s)"
    by (cases pb) (simp_all add: effective_basePath_def truthy_def)
next
  fix c
  assume h: "cwd config = Some c \<and> c \<noteq> [] \<and> \<not> path_isAbsolute P c
           \<and> (effective_basePath pb s = None \<or> effective_basePath pb s = Some [])"
  then have nb: "\<not> truthy (effective_basePath pb s)" by (auto simp: truthy_def)
  from h nb show f: "createTerminal P config pb a s =
            (None, s\<lparr> error_messages := error_messages s @ [CannotResolveRelativePath c] \<rparr>)"
    by (intro createTerminal_unresolvable) simp_all
  fix i rest
  show "launch_ungrouped_loop P i (config # rest) pb a s =
                launch_ungrouped_loop P (Suc i) rest pb a
                  (s\<lparr> error_messages := error_messages s @ [CannotResolveRelativePath c] \<rparr>)"
    by (simp add: f)
  fix n
  show "launch_group_loop P n i (config # rest) pb a s =
                launch_group_loop P n (Suc i) rest pb a
                  (s\<lparr> error_messages := error_messages s @ [CannotResolveRelativePath c] \<rparr>)"
    by (simp add: f)
next
  assume h: "(\<forall>c. cwd config = Some c \<and> c \<noteq> [] \<and> \<not> path_isAbsolute P c \<longrightarrow>
             effective_basePath pb s \<noteq> None \<and> effective_basePath pb s \<noteq> Some [])
        \<and> findExistingTerminal s (prefixed_name P pb (name config)) = None
        \<and> (\<forall>terminalOptions. \<not> host_refuses s terminalOptions)"
  then have "\<exists>r. resolve_cwd P config (effective_basePath pb s) = Inr r"
    by (cases "cwd config"; cases "effective_basePath pb s")
       (auto simp: resolve_cwd_def truthy_def)
  then obtain r where r: "resolve_cwd P config (effective_basePath pb s) = Inr r" ..
  from h open_terminal_accepted[of s "prefixed_name P pb (name config)" r config
      "effective_basePath pb s"]
  obtain terminal s' where
    "open_terminal config (prefixed_name P pb (name config)) r (effective_basePath pb s) s
       = (Some terminal, s')"
    by blast
  with h r have "createTerminal P config pb a s = (Some terminal, s')"
    by (simp add: createTerminal_def Let_def)
  then show "\<exists>terminal s'. createTerminal P config pb a s = (Some terminal, s')" by blast
qed

lemma sample_join: "path_join posix ''/root'' ''./x'' = ''/root/x''"
  by code_simp

text \<open>
  The theorem on four requests: \<open>cwd = "./x"\<close> under \<open>basePath = "/root"\<close> resolves to
  \<open>/root/x\<close>, \<open>cwd = "/abs"\<close> is kept, an absent \<open>cwd\<close> resolves to \<open>/root\<close>, and
  \<open>cwd = "x"\<close> with no base path and no workspace folder fails with the error message.
\<close>

theorem cwd_resolution_witness:
  "map_option (\<lambda>terminal. opt_cwd (creationOptions terminal))
     (fst (createTerminal posix ((bare ''A'')\<lparr> cwd := Some ''./x'' \<rparr>) (Some ''/root'') Proceed
             (host_with [] None)))
     = Some (Some ''/root/x'')
   \<and> map_option (\<lambda>terminal. opt_cwd (creationOptions terminal))
        (fst (createTerminal posix ((bare ''A'')\<lparr> cwd := Some ''/abs'' \<rparr>) (Some ''/root'') Proceed
                (host_with [] None)))
     = Some (Some ''/abs'')
   \<and> map_option (\<lambda>terminal. opt_cwd (creationOptions terminal))
        (fst (createTerminal posix (bare ''A'') (Some ''/root'') Proceed (host_with [] None)))
     = Some (Some ''/root'')
   \<and> createTerminal posix ((bare ''A'')\<lparr> cwd := Some ''x'' \<rparr>) None Proceed (host_with [] None)
     = (None, (host_with [] None)\<lparr> error_messages :=
                error_messages (host_with [] None) @ [CannotResolveRelativePath ''x''] \<rparr>)"
proof -
  let ?s = "host_with [] None"
  let ?rel = "(bare ''A'')\<lparr> cwd := Some ''./x'' \<rparr>"
  let ?abs = "(bare ''A'')\<lparr> cwd := Some ''/abs'' \<rparr>"
  let ?bad = "(bare ''A'')\<lparr> cwd := Some ''x'' \<rparr>"
  have base: "effective_basePath (Some ''/root'') ?s = Some ''/root''"
    by (simp add: effective_basePath_def truthy_def)
  have nobase: "effective_basePath None ?s = None"
    by (simp add: effective_basePath_def truthy_def first_workspaceFolder_def host_with_def)
  have free: "findExistingTerminal ?s n = None" for n
    by (simp add: findExistingTerminal_def host_with_def enumerate_eq_zip)
  have host: "\<forall>terminalOptions. \<not> host_refuses ?s terminalOptions"
    by (simp add: host_with_def)
  have rel: "cwd ?rel = Some ''./x'' \<and> ''./x'' \<noteq> [] \<and> \<not> path_isAbsolute posix ''./x''"
    by (simp add: bare_def posix_def posix_isAbsolute_def)
  have abs: "cwd ?abs = Some ''/abs'' \<and> ''/abs'' \<noteq> [] \<and> path_isAbsolute posix ''/abs''"
    by (simp add: bare_def posix_def posix_isAbsolute_def)
  have none: "cwd (bare ''A'') = None" by (simp add: bare_def)
  have bad: "cwd ?bad = Some ''x'' \<and> ''x'' \<noteq> [] \<and> \<not> path_isAbsolute posix ''x''"
    by (simp add: bare_def posix_def posix_isAbsolute_def)
  have based: "\<forall>c. cwd config = Some c \<and> c \<noteq> [] \<and> \<not> path_isAbsolute posix c \<longrightarrow>
      effective_basePath (Some ''/root'') ?s \<noteq> None
      \<and> effective_basePath (Some ''/root'') ?s \<noteq> Some []" for config :: TerminalConfig
    by (simp add: base)

  note R = cwd_resolution[of posix ?rel "Some ''/root''" Proceed ?s]
  note R_created = R[THEN conjunct2, THEN conjunct2, THEN conjunct2, THEN conjunct2, THEN conjunct2]
  note R_relative = R[THEN conjunct2, THEN conjunct1]
  from R_created based[of ?rel] free host obtain t1 s1 where
    c1: "createTerminal posix ?rel (Some ''/root'') Proceed ?s = (Some t1, s1)"
    by blast
  with R_relative rel obtain b where "effective_basePath (Some ''/root'') ?s = Some b"
    and "opt_cwd (creationOptions t1) = Some (path_join posix b ''./x'')"
    by blast
  with base sample_join have "opt_cwd (creationOptions t1) = Some ''/root/x''" by simp
  with c1 have w1: "map_option (\<lambda>terminal. opt_cwd (creationOptions terminal))
      (fst (createTerminal posix ?rel (Some ''/root'') Proceed ?s)) = Some (Some ''/root/x'')"
    by simp

  note A = cwd_resolution[of posix ?abs "Some ''/root''" Proceed ?s]
  note A_created = A[THEN conjunct2, THEN conjunct2, THEN conjunct2, THEN conjunct2, THEN conjunct2]
  note A_absolute = A[THEN conjunct1]
  from A_created based[of ?abs] free host obtain t2 s2 where
    c2: "createTerminal posix ?abs (Some ''/root'') Proceed ?s = (Some t2, s2)"
    by blast
  with A_absolute abs have "opt_cwd (creationOptions t2) = Some ''/abs''" by blast
  with c2 have w2: "map_option (\<lambda>terminal. opt_cwd (creationOptions terminal))
      (fst (createTerminal posix ?abs (Some ''/root'') Proceed ?s)) = Some (Some ''/abs'')"
    by simp

  note N = cwd_resolution[of posix "bare ''A''" "Some ''/root''" Proceed ?s]
  note N_created = N[THEN conjunct2, THEN conjunct2, THEN conjunct2, THEN conjunct2, THEN conjunct2]
  note N_absent = N[THEN conjunct2, THEN conjunct2, THEN conjunct1]
  from N_created based[of "bare ''A''"] free host obtain t3 s3 where
    c3: "createTerminal posix (bare ''A'') (Some ''/root'') Proceed ?s = (Some t3, s3)"
    by blast
  with N_absent none have "opt_cwd (creationOptions t3) = effective_basePath (Some ''/root'') ?s"
    by blast
  with c3 base have w3: "map_option (\<lambda>terminal. opt_cwd (creationOptions terminal))
      (fst (createTerminal posix (bare ''A'') (Some ''/root'') Proceed ?s)) = Some (Some ''/root'')"
    by simp

  note B = cwd_resolution[of posix ?bad None Proceed ?s]
  note B_fails = B[THEN conjunct2, THEN conjunct2, THEN conjunct2, THEN conjunct2, THEN conjunct1]
  from B_fails bad nobase
  have w4: "createTerminal posix ?bad None Proceed ?s =
      (None, ?s\<lparr> error_messages := error_messages ?s @ [CannotResolveRelativePath ''x''] \<rparr>)"
    by blast
  from w1 w2 w3 w4 show ?thesis by (intro conjI)
qed

text \<open>
  Claim C4 as stated fails for a \<open>cwd\<close> that is present but empty: it is not absolute,
  and neither a base path nor a workspace root is available, yet the request does not
  fail. The session is created with no working directory and no error is reported,
  because \<open>config.cwd\<close> is tested for truthiness.
\<close>

theorem empty_cwd_counterexample:
  "cwd ((bare ''A'')\<lparr> cwd := Some '''' \<rparr>) = Some ''''
   \<and> \<not> path_isAbsolute posix ''''
   \<and> effective_basePath None (host_with [] None) = None
   \<and> map_option (\<lambda>terminal. opt_cwd (creationOptions terminal))
        (fst (createTerminal posix ((bare ''A'')\<lparr> cwd := Some '''' \<rparr>) None Proceed
                (host_with [] None)))
     = Some None
   \<and> error_messages
        (snd (createTerminal posix ((bare ''A'')\<lparr> cwd := Some '''' \<rparr>) None Proceed
                (host_with [] None)))
     = []"
  by code_simp

end
